theory Spec2Isabelle
  imports Complex_Main "HOL-Library.AList"
begin

section \<open>Errors, floating-point values and tensors\<close>

text \<open>
  The exceptions the modelled code can raise.  \<open>NameError\<close> is Python's error for a
  name that is bound nowhere, \<open>UnboundLocalError\<close> (a subclass of it) the one for a local
  variable read before any assignment, \<open>RuntimeError\<close> what torch raises on a shape
  mismatch.
\<close>

datatype error =
    NameError string
  | UnboundLocalError string
  | ZeroDivisionError
  | RuntimeError string

text \<open>
  A floating-point value, of a Python float or of a tensor element: a finite number, an
  infinity or \<open>nan\<close>.
\<close>

datatype scalar = Finite real | PosInf | NegInf | NaN

text \<open>
  A tensor is its shape (what \<open>.size()\<close> returns) and its elements in row-major order.
\<close>

record tensor =
  shape :: "nat list"
  vals :: "scalar list"

text \<open>
  The arithmetic of Python floats and of torch is not code of the repository, and how it
  rounds depends on the element type of the tensors (single precision in the training
  loop) and on the library.  The operations the losses use are therefore parameters: one
  function per operation, giving the floating-point result that the operation computes.
  \<^item> \<open>py_float\<close>: the Python float that a decimal literal denotes;
  \<^item> \<open>float_plus\<close>, \<open>float_divide\<close>: \<open>+\<close> on Python floats (an \<open>int\<close> operand is
    converted) and \<open>/\<close> of a Python float by a positive \<open>int\<close>;
  \<^item> \<open>scalar_plus c x\<close>, \<open>scalar_minus c x\<close>: one element of \<open>c + t\<close> and of \<open>c - t\<close>
    for a Python float \<open>c\<close> and a tensor \<open>t\<close>;
  \<^item> \<open>minus_op\<close>, \<open>square_op\<close>, \<open>log_op\<close>: one element of \<open>a - b\<close>, of \<open>t ** 2\<close> and
    of \<open>torch.log(t)\<close>;
  \<^item> \<open>mean_op\<close>: \<open>.mean()\<close> of the listed elements;
  \<^item> \<open>neg_op\<close>, \<open>plus_op\<close>: unary minus and \<open>+\<close> on the resulting zero-dimensional
    tensors.
\<close>

record arith =
  py_float :: "real \<Rightarrow> scalar"
  float_plus :: "scalar \<Rightarrow> scalar \<Rightarrow> scalar"
  float_divide :: "scalar \<Rightarrow> nat \<Rightarrow> scalar"
  scalar_plus :: "scalar \<Rightarrow> scalar \<Rightarrow> scalar"
  scalar_minus :: "scalar \<Rightarrow> scalar \<Rightarrow> scalar"
  minus_op :: "scalar \<Rightarrow> scalar \<Rightarrow> scalar"
  square_op :: "scalar \<Rightarrow> scalar"
  log_op :: "scalar \<Rightarrow> scalar"
  mean_op :: "scalar list \<Rightarrow> scalar"
  neg_op :: "scalar \<Rightarrow> scalar"
  plus_op :: "scalar \<Rightarrow> scalar \<Rightarrow> scalar"

definition add_scalar :: "arith \<Rightarrow> scalar \<Rightarrow> tensor \<Rightarrow> tensor" where
  \<comment> \<open>\<open>c + t\<close> for a Python float \<open>c\<close>\<close>
  "add_scalar A c t = t\<lparr>vals := map (scalar_plus A c) (vals t)\<rparr>"

definition rsub_scalar :: "arith \<Rightarrow> scalar \<Rightarrow> tensor \<Rightarrow> tensor" where
  \<comment> \<open>\<open>c - t\<close> for a Python float \<open>c\<close>\<close>
  "rsub_scalar A c t = t\<lparr>vals := map (scalar_minus A c) (vals t)\<rparr>"

definition torch_log :: "arith \<Rightarrow> tensor \<Rightarrow> tensor" where
  "torch_log A t = t\<lparr>vals := map (log_op A) (vals t)\<rparr>"

definition mean :: "arith \<Rightarrow> tensor \<Rightarrow> scalar" where
  \<comment> \<open>\<open>.mean()\<close> over all elements\<close>
  "mean A t = mean_op A (vals t)"

definition square :: "arith \<Rightarrow> tensor \<Rightarrow> tensor" where
  \<comment> \<open>\<open>t ** 2\<close>\<close>
  "square A t = t\<lparr>vals := map (square_op A) (vals t)\<rparr>"

text \<open>
  Broadcasting, as torch defines it for an elementwise operation on two tensors: the
  shapes are aligned at their last dimension, the shorter one is padded with ones in
  front, and two aligned dimensions are compatible when they are equal or one of them is
  \<open>1\<close>; a dimension of size \<open>1\<close> is repeated to the size of the other.  Incompatible
  shapes are a \<open>RuntimeError\<close>.  \<open>expand from to xs\<close> repeats the elements \<open>xs\<close> of a
  tensor of shape \<open>from\<close> to the shape \<open>to\<close>.
\<close>

definition pad_shape :: "nat \<Rightarrow> nat list \<Rightarrow> nat list" where
  "pad_shape n s = replicate (n - length s) 1 @ s"

definition broadcast_shape :: "nat list \<Rightarrow> nat list \<Rightarrow> nat list" where
  "broadcast_shape sa sb = map2 (\<lambda>x y. if x = 1 then y else x) sa sb"

fun expand :: "nat list \<Rightarrow> nat list \<Rightarrow> 'a list \<Rightarrow> 'a list" where
  "expand (d # ds) (t # ts) xs =
     (let n = prod_list ds
      in if d = t
         then concat (map (\<lambda>i. expand ds ts (take n (drop (i * n) xs))) [0..<d])
         else concat (replicate t (expand ds ts xs)))"
| "expand ds ts xs = xs"

definition sub_t :: "arith \<Rightarrow> tensor \<Rightarrow> tensor \<Rightarrow> error + tensor" where
  \<comment> \<open>\<open>a - b\<close>\<close>
  "sub_t A a b =
     (let n = max (length (shape a)) (length (shape b));
          sa = pad_shape n (shape a);
          sb = pad_shape n (shape b)
      in if list_all2 (\<lambda>x y. x = y \<or> x = 1 \<or> y = 1) sa sb
         then let s = broadcast_shape sa sb
              in Inr \<lparr>shape = s,
                      vals = map2 (minus_op A) (expand sa s (vals a)) (expand sb s (vals b))\<rparr>
         else Inl (RuntimeError ''size mismatch''))"

definition well_formed :: "tensor \<Rightarrow> bool" where
  \<comment> \<open>a tensor has as many elements as its shape says\<close>
  "well_formed t = (length (vals t) = prod_list (shape t))"

section \<open>Adversarial losses\<close>

text \<open>
  \<^verbatim>\<open>
  def _get_loss_disc(disc_output, real, eps=1e-5):
      if real:
          loss = -torch.log(eps + disc_output).mean()
      else:
          loss = -torch.log(eps + 1 - disc_output).mean()
      return loss
  \<close>
  The source's name starts with an underscore, which an Isabelle name cannot.  No caller
  overrides \<open>eps\<close>, so every call passes \<open>default_eps\<close>, the Python float of the literal
  \<open>1e-5\<close>.  \<open>eps + 1 - disc_output\<close> is \<open>(eps + 1) - disc_output\<close>: a sum of Python
  numbers, then a tensor operation.
\<close>

definition default_eps :: "arith \<Rightarrow> scalar" where
  "default_eps A = py_float A (1 / 100000)"

definition private_get_loss_disc :: "arith \<Rightarrow> tensor \<Rightarrow> bool \<Rightarrow> scalar \<Rightarrow> scalar" where
  "private_get_loss_disc A disc_output real_flag eps =
     (if real_flag
      then neg_op A (mean A (torch_log A (add_scalar A eps disc_output)))
      else neg_op A (mean A (torch_log A
             (rsub_scalar A (float_plus A eps (Finite 1)) disc_output))))"

text \<open>
  \<^verbatim>\<open>
  def get_loss_disc(disc_fake, disc_real):
      loss = _get_loss_disc(disc_fake, real=False) + _get_loss_disc(disc_real, real=True)
      return loss
  \<close>
\<close>

definition get_loss_disc :: "arith \<Rightarrow> tensor \<Rightarrow> tensor \<Rightarrow> scalar" where
  "get_loss_disc A disc_fake disc_real =
     plus_op A (private_get_loss_disc A disc_fake False (default_eps A))
               (private_get_loss_disc A disc_real True (default_eps A))"

text \<open>
  \<^verbatim>\<open>
  def get_loss_gen(outputs, disc_fake, target):
      loss_gen = ((outputs - target)**2).mean()
      loss_disc = _get_loss_disc(disc_output=disc_fake, real=True)
      loss = loss_gen + loss_disc
      return loss
  \<close>
\<close>

definition get_loss_gen :: "arith \<Rightarrow> tensor \<Rightarrow> tensor \<Rightarrow> tensor \<Rightarrow> error + scalar" where
  "get_loss_gen A outputs disc_fake target =
     (case sub_t A outputs target of
        Inl e \<Rightarrow> Inl e
      | Inr d \<Rightarrow>
          (let loss_gen = mean A (square A d);
               loss_disc = private_get_loss_disc A disc_fake True (default_eps A)
           in Inr (plus_op A loss_gen loss_disc)))"

text \<open>
  Exact arithmetic: every operation gives the mathematical result on finite values and
  follows the IEEE rules on infinities and \<open>nan\<close>.  It is the arithmetic without
  rounding, used for the examples.
\<close>

fun exact_plus :: "scalar \<Rightarrow> scalar \<Rightarrow> scalar" where
  "exact_plus (Finite x) (Finite y) = Finite (x + y)"
| "exact_plus NaN b = NaN"
| "exact_plus a NaN = NaN"
| "exact_plus PosInf NegInf = NaN"
| "exact_plus NegInf PosInf = NaN"
| "exact_plus PosInf b = PosInf"
| "exact_plus a PosInf = PosInf"
| "exact_plus NegInf b = NegInf"
| "exact_plus a NegInf = NegInf"

fun exact_neg :: "scalar \<Rightarrow> scalar" where
  "exact_neg (Finite x) = Finite (- x)"
| "exact_neg PosInf = NegInf"
| "exact_neg NegInf = PosInf"
| "exact_neg NaN = NaN"

definition exact_minus :: "scalar \<Rightarrow> scalar \<Rightarrow> scalar" where
  "exact_minus a b = exact_plus a (exact_neg b)"

fun exact_square :: "scalar \<Rightarrow> scalar" where
  "exact_square (Finite x) = Finite (x ^ 2)"
| "exact_square NaN = NaN"
| "exact_square a = PosInf"

fun exact_log :: "scalar \<Rightarrow> scalar" where
  "exact_log (Finite x) = (if 0 < x then Finite (ln x) else if x = 0 then NegInf else NaN)"
| "exact_log PosInf = PosInf"
| "exact_log a = NaN"

fun exact_divide :: "scalar \<Rightarrow> nat \<Rightarrow> scalar" where
  "exact_divide (Finite x) n = Finite (x / real n)"
| "exact_divide a n = a"

definition exact_mean :: "scalar list \<Rightarrow> scalar" where
  "exact_mean xs =
     (if xs = [] then NaN else exact_divide (foldl exact_plus (Finite 0) xs) (length xs))"

definition exact_arith :: arith where
  "exact_arith =
     \<lparr>py_float = Finite,
      float_plus = exact_plus,
      float_divide = exact_divide,
      scalar_plus = exact_plus,
      scalar_minus = exact_minus,
      minus_op = exact_minus,
      square_op = exact_square,
      log_op = exact_log,
      mean_op = exact_mean,
      neg_op = exact_neg,
      plus_op = exact_plus\<rparr>"

text \<open>Signs and ranges of floating-point values.\<close>

fun positive :: "scalar \<Rightarrow> bool" where
  "positive (Finite v) = (0 < v)"
| "positive PosInf = True"
| "positive a = False"

fun negative :: "scalar \<Rightarrow> bool" where
  "negative (Finite v) = (v < 0)"
| "negative NegInf = True"
| "negative a = False"

fun between :: "real \<Rightarrow> real \<Rightarrow> scalar \<Rightarrow> bool" where
  \<comment> \<open>a finite value strictly between the two bounds\<close>
  "between lo hi (Finite v) = (lo < v \<and> v < hi)"
| "between lo hi a = False"

definition inside :: "real \<Rightarrow> real \<Rightarrow> tensor \<Rightarrow> bool" where
  \<comment> \<open>every element lies strictly between the two bounds\<close>
  "inside lo hi t = list_all (between lo hi) (vals t)"

section \<open>State dictionaries and the partial loader\<close>

text \<open>
  A state dictionary maps parameter names to tensors and keeps insertion order: an
  association list whose keys are distinct.
\<close>

type_synonym state_dict = "(string \<times> tensor) list"

text \<open>
  \<open>module.load_state_dict(sd, strict=False)\<close> of torch (a library routine, not code of
  the repository), as torch documents it: a parameter of the module whose key is in \<open>sd\<close>
  takes the value stored there, a parameter whose key is missing keeps its value, keys of
  \<open>sd\<close> that the module does not have are ignored, and a key present on both sides with
  different shapes is a \<open>RuntimeError\<close> (also when \<open>strict\<close> is off).  The first
  argument is the module's parameters.
\<close>

fun load_state_dict :: "state_dict \<Rightarrow> state_dict \<Rightarrow> error + state_dict" where
  "load_state_dict [] sd = Inr []"
| "load_state_dict ((k, v) # ps) sd =
     (case map_of sd k of
        None \<Rightarrow>
          (case load_state_dict ps sd of Inl e \<Rightarrow> Inl e | Inr ps' \<Rightarrow> Inr ((k, v) # ps'))
      | Some t \<Rightarrow>
          if shape t = shape v
          then (case load_state_dict ps sd of Inl e \<Rightarrow> Inl e | Inr ps' \<Rightarrow> Inr ((k, t) # ps'))
          else Inl (RuntimeError ''size mismatch''))"

text \<open>
  The selection loop of \<open>main\<close>, written twice there (for the generator and for the
  discriminator):
  \<^verbatim>\<open>
  new_model_state_dict = {}
  for k in model_state_dict:
      if k in checkpoint['state_dict'] and model_state_dict[k].size() == checkpoint['state_dict'][k].size():
          new_model_state_dict[k] = checkpoint['state_dict'][k]
      else:
          print('Skipped loading parameter {}'.format(k))
  \<close>
  The loop runs over the entries of the live dictionary; the accumulator is the new
  dictionary and the keys printed as skipped, in order.
\<close>

fun select_loop ::
  "state_dict \<Rightarrow> state_dict \<Rightarrow> state_dict \<times> string list \<Rightarrow> state_dict \<times> string list" where
  "select_loop [] saved acc = acc"
| "select_loop ((k, v) # rest) saved (new, skipped) =
     (case map_of saved k of
        None \<Rightarrow> select_loop rest saved (new, skipped @ [k])
      | Some t \<Rightarrow>
          if shape v = shape t
          then select_loop rest saved (AList.update k t new, skipped)
          else select_loop rest saved (new, skipped @ [k]))"

text \<open>
  The loop followed by the load.  \<open>live\<close> is the dictionary the loop runs over, \<open>params\<close>
  the parameters of the module that \<open>load_state_dict\<close> is called on.
  \<^verbatim>\<open>
  model.load_state_dict(new_model_state_dict, strict=False)
  \<close>
\<close>

definition partial_load ::
  "state_dict \<Rightarrow> state_dict \<Rightarrow> state_dict \<Rightarrow> error + state_dict \<times> string list" where
  "partial_load params live saved =
     (case select_loop live saved ([], []) of
        (new, skipped) \<Rightarrow>
          (case load_state_dict params new of
             Inl e \<Rightarrow> Inl e
           | Inr params' \<Rightarrow> Inr (params', skipped)))"

definition compatible :: "state_dict \<Rightarrow> state_dict \<Rightarrow> string \<Rightarrow> bool" where
  \<comment> \<open>the key is in both dictionaries, with tensors of one shape\<close>
  "compatible live saved k =
     (case map_of saved k of
        None \<Rightarrow> False
      | Some t \<Rightarrow> (case map_of live k of None \<Rightarrow> False | Some v \<Rightarrow> shape v = shape t))"

section \<open>The training session of \<open>main\<close>\<close>

text \<open>
  An optimizer, as far as \<open>main\<close> and the scheduler use it: the learning rate of its
  parameter group (\<open>get_optimizer\<close> builds one group) and the rest of its state, an
  opaque value of type \<open>'o\<close>.  Learning rates are Python floats; the model computes
  them exactly, which is what the code computes whenever the products are representable
  (as with the factor \<open>1/2\<close> of the examples).
\<close>

record 'o optimizer =
  group_lr :: real
  buffers :: 'o

text \<open>
  The checkpoint dictionary that \<open>main\<close> passes to \<open>save_checkpoint\<close> and reads back
  with \<open>torch.load\<close>.
\<close>

record 'o checkpoint =
  ck_epoch :: int
  ck_model :: string
  ck_state_dict :: state_dict
  ck_best_state_dict :: state_dict
  ck_perf :: real
  ck_optimizer :: "'o optimizer"
  ck_discriminator_state_dict :: state_dict
  ck_discriminator_optimizer :: "'o optimizer"

text \<open>The fields of \<open>cfg\<close> that \<open>main\<close> reads on the modelled path.\<close>

record config =
  AUTO_RESUME :: bool
  MODEL_NAME :: string
  BEGIN_EPOCH :: int
  END_EPOCH :: int
  LR_STEP :: "int list"
  LR_FACTOR :: real

datatype line =
    SkippedLoading string
  | BestSoFar real real
  | Saving

text \<open>
  The local variables of \<open>main\<close> that the modelled path reads or writes, and what the run
  leaves behind: the records written by \<open>save_checkpoint\<close> (oldest first), the final
  state file, the printed lines, and the calls of \<open>train\<close>, each with its epoch and the
  learning rate that the generator's optimizer holds at the call.  \<open>lr_scheduler\<close> is the
  scheduler's epoch counter (its attribute \<open>last_epoch\<close>).
\<close>

record 'o session =
  model :: state_dict
  discriminator :: state_dict
  optimizer_generator :: "'o optimizer"
  optimizer_discriminator :: "'o optimizer"
  best_perf :: real
  best_perf_01 :: real
  best_model :: bool
  last_epoch :: int
  begin_epoch :: int
  lr_scheduler :: int
  checkpoints :: "'o checkpoint list"
  final_state :: "state_dict option"
  printed :: "line list"
  train_calls :: "(int \<times> real) list"

text \<open>
  What \<open>main\<close> obtains from outside the file: the freshly constructed networks and
  optimizers, \<open>core.function.train\<close> (it updates the generator and its optimizer) and
  \<open>core.function.validate\<close> (it returns the performance indicator).
\<close>

record 'o collaborators =
  new_model :: state_dict
  new_discriminator :: state_dict
  new_optimizer_generator :: "'o optimizer"
  new_optimizer_discriminator :: "'o optimizer"
  train :: "int \<Rightarrow> state_dict \<times> 'o optimizer \<Rightarrow> state_dict \<times> 'o optimizer"
  validate :: "state_dict \<Rightarrow> real"

text \<open>
  The learning-rate scheduler is \<open>MultiStepLR\<close> of torch (a library class, not code of
  the repository), as torch implements it.  It owns no learning rate: it rewrites the one
  of the optimizer it was given.
  \<^verbatim>\<open>
  def get_lr(self):
      if self.last_epoch not in self.milestones:
          return [group['lr'] for group in self.optimizer.param_groups]
      return [group['lr'] * self.gamma ** self.milestones[self.last_epoch]
              for group in self.optimizer.param_groups]
  \<close>
  \<open>step()\<close> adds one to \<open>last_epoch\<close> and stores the result of \<open>get_lr()\<close> in the
  optimizer; \<open>milestones\<close> counts how often each milestone is listed.  The constructor,
  called with \<open>last_epoch=-1\<close>, sets the counter to \<open>-1\<close> and calls \<open>step()\<close> once.
\<close>

definition get_lr :: "config \<Rightarrow> int \<Rightarrow> real \<Rightarrow> real" where
  \<comment> \<open>the new rate, from the counter and the optimizer's current rate\<close>
  "get_lr cfg n lr =
     (if n \<notin> set (LR_STEP cfg) then lr
      else lr * LR_FACTOR cfg ^ count_list (LR_STEP cfg) n)"

definition step :: "config \<Rightarrow> 'o session \<Rightarrow> 'o session" where
  "step cfg s =
     (let n = lr_scheduler s + 1
      in s\<lparr>lr_scheduler := n,
           optimizer_generator :=
             (optimizer_generator s)\<lparr>group_lr := get_lr cfg n (group_lr (optimizer_generator s))\<rparr>\<rparr>)"

definition MultiStepLR :: "config \<Rightarrow> 'o session \<Rightarrow> 'o session" where
  \<comment> \<open>the constructor call of \<open>main\<close>, on \<open>optimizer_generator\<close>\<close>
  "MultiStepLR cfg s = step cfg (s\<lparr>lr_scheduler := - 1\<rparr>)"

text \<open>
  The resume block of \<open>main\<close> (the body of
  \<open>if cfg.AUTO_RESUME and os.path.exists(checkpoint_file)\<close>):
  \<^verbatim>\<open>
  begin_epoch = checkpoint['epoch']
  best_perf = checkpoint['perf']
  last_epoch = checkpoint['epoch']
  model_state_dict = model.state_dict()
  ... selection loop over model_state_dict ...
  model.load_state_dict(new_model_state_dict, strict=False)
  discriminator_dict = discriminator.state_dict()
  ... selection loop over discriminator_dict ...
  model.load_state_dict(new_discriminator_dict, strict=False)
  optimizer_generator.load_state_dict(checkpoint['optimizer'])
  optimizer_discriminator.load_state_dict(checkpoint['discriminator_optimizer'])
  \<close>
  Both loads are calls on \<open>model\<close>.  Loading an optimizer state replaces the
  optimizer's state, its learning rate included.
\<close>

definition resume :: "'o checkpoint \<Rightarrow> 'o session \<Rightarrow> error + 'o session" where
  "resume checkpoint s =
     (let s1 = s\<lparr>begin_epoch := ck_epoch checkpoint,
                 best_perf := ck_perf checkpoint,
                 last_epoch := ck_epoch checkpoint\<rparr>
      in case partial_load (model s1) (model s1) (ck_state_dict checkpoint) of
           Inl e \<Rightarrow> Inl e
         | Inr (m1, skipped1) \<Rightarrow>
             (let s2 = s1\<lparr>model := m1, printed := printed s1 @ map SkippedLoading skipped1\<rparr>
              in case partial_load (model s2) (discriminator s2)
                        (ck_discriminator_state_dict checkpoint) of
                   Inl e \<Rightarrow> Inl e
                 | Inr (m2, skipped2) \<Rightarrow>
                     Inr (s2\<lparr>model := m2,
                             printed := printed s2 @ map SkippedLoading skipped2,
                             optimizer_generator := ck_optimizer checkpoint,
                             optimizer_discriminator := ck_discriminator_optimizer checkpoint\<rparr>)))"

text \<open>
  One iteration of the epoch loop:
  \<^verbatim>\<open>
  lr_scheduler.step()
  train(cfg, train_loader, model, criterion, optimizer_generator, epoch, ...)
  # train_GAN(cfg, train_loader, model, discriminator, ...)      (commented out)
  perf_indicator = validate(cfg, valid_loader, valid_dataset, ..., model, ...)
  perf_indicator_01 = 0
  if perf_indicator >= best_perf:
      best_perf = perf_indicator
      best_perf_01 = perf_indicator_01
      best_model = True
      logger.info('=> saving checkpoint to {}'.format(final_output_dir))
      save_checkpoint({'epoch': epoch + 1, 'model': cfg.MODEL.NAME,
                       'state_dict': model.state_dict(), ...}, best_model, final_output_dir)
  else:
      best_model = False
  print("Best so far: PCKh@0.5 = "+str(best_perf)+", PCKh@0.1 = "+str(best_perf_01))
  \<close>
  Modelled from the spec: \<open>save_checkpoint\<close> (\<open>utils/utils.py\<close>, not among the sources)
  writes the record it is given as the checkpoint file; the model appends the record to
  \<open>checkpoints\<close>.
\<close>

definition best_model_block :: "config \<Rightarrow> int \<Rightarrow> real \<Rightarrow> 'o session \<Rightarrow> 'o session" where
  \<comment> \<open>from \<open>perf_indicator_01 = 0\<close> to the "Best so far" line, for a given
     \<open>perf_indicator\<close>\<close>
  "best_model_block cfg epoch perf_indicator s =
     (let perf_indicator_01 = 0;
          s1 = (if perf_indicator \<ge> best_perf s
                then s\<lparr>best_perf := perf_indicator,
                       best_perf_01 := perf_indicator_01,
                       best_model := True,
                       printed := printed s @ [Saving],
                       checkpoints := checkpoints s @
                         [\<lparr>ck_epoch = epoch + 1,
                           ck_model = MODEL_NAME cfg,
                           ck_state_dict = model s,
                           ck_best_state_dict = model s,
                           ck_perf = perf_indicator,
                           ck_optimizer = optimizer_generator s,
                           ck_discriminator_state_dict = discriminator s,
                           ck_discriminator_optimizer = optimizer_discriminator s\<rparr>]\<rparr>
                else s\<lparr>best_model := False\<rparr>)
      in s1\<lparr>printed := printed s1 @ [BestSoFar (best_perf s1) (best_perf_01 s1)]\<rparr>)"

definition epoch_body :: "'o collaborators \<Rightarrow> config \<Rightarrow> int \<Rightarrow> 'o session \<Rightarrow> 'o session" where
  "epoch_body ext cfg epoch s =
     (let s1 = step cfg s;
          trained = train ext epoch (model s1, optimizer_generator s1);
          s2 = s1\<lparr>model := fst trained, optimizer_generator := snd trained,
                  train_calls := train_calls s1 @ [(epoch, group_lr (optimizer_generator s1))]\<rparr>;
          perf_indicator = validate ext (model s2)
      in best_model_block cfg epoch perf_indicator s2)"

text \<open>
  \<open>range(n)\<close> and \<open>range(a, b)\<close> of Python on integers: empty when there is nothing to
  count.
\<close>

definition range1 :: "int \<Rightarrow> int list" where
  "range1 n = [0..n - 1]"

definition range2 :: "int \<Rightarrow> int \<Rightarrow> int list" where
  "range2 a b = [a..b - 1]"

text \<open>
  \<open>main\<close>, from the initialisation of its bookkeeping variables to the final save.  The
  second argument is the content of the checkpoint file, \<open>None\<close> when the file does not
  exist.
  \<^verbatim>\<open>
  best_perf = 0.0; best_perf_01 = 0.0; best_model = False; last_epoch = -1
  begin_epoch = cfg.TRAIN.BEGIN_EPOCH
  if cfg.AUTO_RESUME and os.path.exists(checkpoint_file): ... resume block ...
  lr_scheduler = torch.optim.lr_scheduler.MultiStepLR(
      optimizer_generator, cfg.TRAIN.LR_STEP, cfg.TRAIN.LR_FACTOR, last_epoch=-1)
  for i in range(last_epoch):
      lr_scheduler.step()
  for epoch in range(begin_epoch, cfg.TRAIN.END_EPOCH): ... epoch body ...
  torch.save(model.state_dict(), final_model_state_file)
  \<close>
\<close>

definition initial :: "'o collaborators \<Rightarrow> config \<Rightarrow> 'o session" where
  "initial ext cfg =
     \<lparr>model = new_model ext,
      discriminator = new_discriminator ext,
      optimizer_generator = new_optimizer_generator ext,
      optimizer_discriminator = new_optimizer_discriminator ext,
      best_perf = 0,
      best_perf_01 = 0,
      best_model = False,
      last_epoch = - 1,
      begin_epoch = BEGIN_EPOCH cfg,
      lr_scheduler = 0,
      checkpoints = [],
      final_state = None,
      printed = [],
      train_calls = []\<rparr>"

definition epochs :: "'o collaborators \<Rightarrow> config \<Rightarrow> 'o session \<Rightarrow> 'o session" where
  \<comment> \<open>the scheduler's construction and replay, the epoch loop and the final save\<close>
  "epochs ext cfg s =
     (let s1 = fold (\<lambda>i. step cfg) (range1 (last_epoch s)) (MultiStepLR cfg s);
          s2 = fold (epoch_body ext cfg) (range2 (begin_epoch s1) (END_EPOCH cfg)) s1
      in s2\<lparr>final_state := Some (model s2)\<rparr>)"

definition main ::
  "'o collaborators \<Rightarrow> config \<Rightarrow> 'o checkpoint option \<Rightarrow> error + 'o session" where
  "main ext cfg checkpoint_file =
     (case checkpoint_file of
        Some checkpoint \<Rightarrow>
          if AUTO_RESUME cfg
          then (case resume checkpoint (initial ext cfg) of
                  Inl e \<Rightarrow> Inl e
                | Inr s \<Rightarrow> Inr (epochs ext cfg s))
          else Inr (epochs ext cfg (initial ext cfg))
      | None \<Rightarrow> Inr (epochs ext cfg (initial ext cfg)))"

text \<open>The best-model decision as the specification words it.\<close>

definition consider_spec :: "real \<Rightarrow> real \<Rightarrow> real \<times> bool" where
  "consider_spec currentMetric incumbentBest =
     (if currentMetric \<ge> incumbentBest then (currentMetric, True) else (incumbentBest, False))"

fun secondary_reports :: "line list \<Rightarrow> real list" where
  \<comment> \<open>the PCKh@0.1 values of the printed "Best so far" lines\<close>
  "secondary_reports [] = []"
| "secondary_reports (BestSoFar p q # ls) = q # secondary_reports ls"
| "secondary_reports (l # ls) = secondary_reports ls"

section \<open>The adversarial epoch: \<open>train_GAN\<close>\<close>

text \<open>
  \<open>train_GAN\<close> works on the two networks and their optimizers, which live outside the
  file.  Their joint state (weights, gradients, optimizer buffers) is a value of type
  \<open>'w\<close>; the operations on it are the fields of \<open>torch_ops\<close>, together with the
  arithmetic of the losses.  Forward passes and \<open>torch.cat\<close> may raise.  Every
  operation on an optimizer or a network is also recorded, in order, as an event.
\<close>

datatype event =
    ModelTrain
  | DiscriminatorTrain
  | DiscZeroGrad
  | DiscBackward
  | DiscStep
  | GenZeroGrad
  | GenBackward
  | GenStep
  | ModelForward
  | DiscriminatorForward
  | Printed string
  | LossReport scalar scalar

record 'w torch_ops =
  arithmetic :: arith
  model_call :: "tensor \<Rightarrow> 'w \<Rightarrow> (error + tensor) \<times> 'w"
  discriminator_call :: "tensor \<Rightarrow> 'w \<Rightarrow> (error + tensor) \<times> 'w"
  cat_axis1 :: "tensor list \<Rightarrow> error + tensor"
  disc_zero_grad :: "'w \<Rightarrow> 'w"
  disc_backward :: "'w \<Rightarrow> 'w"
  disc_step :: "'w \<Rightarrow> 'w"
  gen_zero_grad :: "'w \<Rightarrow> 'w"
  gen_backward :: "'w \<Rightarrow> 'w"
  gen_step :: "'w \<Rightarrow> 'w"

record 'w machine =
  world :: 'w
  events :: "event list"

text \<open>
  A statement runs on the machine and either raises or returns a value; the machine it
  leaves behind is kept in both cases.
\<close>

type_synonym ('a, 'w) prog = "'w machine \<Rightarrow> (error + 'a) \<times> 'w machine"

definition ret :: "'a \<Rightarrow> ('a, 'w) prog" where
  "ret x s = (Inr x, s)"

definition raise :: "error \<Rightarrow> ('a, 'w) prog" where
  "raise e s = (Inl e, s)"

definition bnd :: "('a, 'w) prog \<Rightarrow> ('a \<Rightarrow> ('b, 'w) prog) \<Rightarrow> ('b, 'w) prog" where
  "bnd m f s = (case m s of (Inl e, s') \<Rightarrow> (Inl e, s') | (Inr x, s') \<Rightarrow> f x s')"

definition emit :: "event \<Rightarrow> (unit, 'w) prog" where
  "emit ev s = (Inr (), s\<lparr>events := events s @ [ev]\<rparr>)"

definition effect :: "event \<Rightarrow> ('w \<Rightarrow> 'w) \<Rightarrow> (unit, 'w) prog" where
  \<comment> \<open>an operation on an optimizer: it changes the outside state and is recorded\<close>
  "effect ev f s = (Inr (), s\<lparr>world := f (world s), events := events s @ [ev]\<rparr>)"

definition forward :: "event \<Rightarrow> ('w \<Rightarrow> (error + tensor) \<times> 'w) \<Rightarrow> (tensor, 'w) prog" where
  \<comment> \<open>a forward pass: recorded, then run; its exception, if any, propagates\<close>
  "forward ev f s =
     (case f (world s) of (r, w) \<Rightarrow> (r, s\<lparr>world := w, events := events s @ [ev]\<rparr>))"

definition lift :: "error + 'a \<Rightarrow> ('a, 'w) prog" where
  "lift r s = (r, s)"

text \<open>
  The name \<open>input_resized\<close> is read once in \<open>train_GAN\<close> and bound nowhere: it is not
  a parameter of the function, no statement of the function assigns it, the module
  defines no such name and it is not a builtin.  Reading it raises \<open>NameError\<close>.
\<close>

definition input_resized :: "(tensor, 'w) prog" where
  "input_resized = raise (NameError ''input_resized'')"

text \<open>
  The local variables of \<open>train_GAN\<close> that live across iterations.  \<open>loop_i\<close> is the
  variable \<open>i\<close> of \<open>enumerate\<close>: \<open>None\<close> while it is unbound.  \<open>.item()\<close> turns a
  zero-dimensional tensor into the Python float of the same value.
\<close>

record locals =
  avg_disc_loss :: scalar
  avg_gen_loss :: scalar
  loop_i :: "nat option"

text \<open>
  A batch is the tuple \<open>(input, target, target_weight, meta)\<close> that the loader yields;
  \<open>meta\<close> is not read.

  The body of the loop:
  \<^verbatim>\<open>
  for i, (input, target, target_weight, meta) in enumerate(tbar):
      # optimize discriminator
      optimizer_discriminator.zero_grad()
      outputs = model(input)
      print("input shape:", input.shape, "target: ", target.shape, "outputs:", outputs.shape)
      disc_real = discriminator(torch.cat([target, input], axis=1))
      disc_fake = discriminator(torch.cat([outputs, input_resized], axis=1))
      loss_disc = get_loss_disc(disc_fake, disc_real)
      avg_disc_loss += loss_disc.item()
      loss_disc.backward()
      optimizer_discriminator.step()
      # optimize generator
      optimizer_generator.zero_grad()
      outputs = model(input)
      disc_fake = discriminator(torch.cat([outputs, input], axis=1))
      loss_gen = get_loss_gen(outputs, disc_fake, target)
      avg_gen_loss += loss_gen.item()
      loss_gen.backward()
      optimizer_generator.step()
  \<close>
\<close>

type_synonym batch = "tensor \<times> tensor \<times> tensor"

definition loop_body :: "'w torch_ops \<Rightarrow> nat \<Rightarrow> batch \<Rightarrow> locals \<Rightarrow> (locals, 'w) prog" where
  "loop_body ops n b l =
     (case b of (inp, target, target_weight) \<Rightarrow>
      let l0 = l\<lparr>loop_i := Some n\<rparr> in
      bnd (effect DiscZeroGrad (disc_zero_grad ops)) (\<lambda>_.
      bnd (forward ModelForward (model_call ops inp)) (\<lambda>outputs.
      bnd (emit (Printed ''input shape:'')) (\<lambda>_.
      bnd (lift (cat_axis1 ops [target, inp])) (\<lambda>real_in.
      bnd (forward DiscriminatorForward (discriminator_call ops real_in)) (\<lambda>disc_real.
      bnd input_resized (\<lambda>resized.
      bnd (lift (cat_axis1 ops [outputs, resized])) (\<lambda>fake_in.
      bnd (forward DiscriminatorForward (discriminator_call ops fake_in)) (\<lambda>disc_fake.
      let loss_disc = get_loss_disc (arithmetic ops) disc_fake disc_real;
          l1 = l0\<lparr>avg_disc_loss :=
                  float_plus (arithmetic ops) (avg_disc_loss l0) loss_disc\<rparr> in
      bnd (effect DiscBackward (disc_backward ops)) (\<lambda>_.
      bnd (effect DiscStep (disc_step ops)) (\<lambda>_.
      bnd (effect GenZeroGrad (gen_zero_grad ops)) (\<lambda>_.
      bnd (forward ModelForward (model_call ops inp)) (\<lambda>outputs2.
      bnd (lift (cat_axis1 ops [outputs2, inp])) (\<lambda>gen_in.
      bnd (forward DiscriminatorForward (discriminator_call ops gen_in)) (\<lambda>disc_fake2.
      bnd (lift (get_loss_gen (arithmetic ops) outputs2 disc_fake2 target)) (\<lambda>loss_gen.
      let l2 = l1\<lparr>avg_gen_loss :=
                  float_plus (arithmetic ops) (avg_gen_loss l1) loss_gen\<rparr> in
      bnd (effect GenBackward (gen_backward ops)) (\<lambda>_.
      bnd (effect GenStep (gen_step ops)) (\<lambda>_.
      ret l2))))))))))))))))))"

fun batches_loop :: "'w torch_ops \<Rightarrow> nat \<Rightarrow> batch list \<Rightarrow> locals \<Rightarrow> (locals, 'w) prog" where
  "batches_loop ops n [] l = ret l"
| "batches_loop ops n (b # bs) l = bnd (loop_body ops n b l) (batches_loop ops (Suc n) bs)"

text \<open>
  The report after the loop:
  \<^verbatim>\<open>
  print(f"loss gen: {avg_gen_loss / i}, loss disc: {avg_disc_loss / i}")
  \<close>
  Reading \<open>i\<close> while it is unbound raises \<open>UnboundLocalError\<close>; dividing by \<open>i = 0\<close>
  raises \<open>ZeroDivisionError\<close>.
\<close>

definition report :: "'w torch_ops \<Rightarrow> locals \<Rightarrow> (unit, 'w) prog" where
  "report ops l =
     (case loop_i l of
        None \<Rightarrow> raise (UnboundLocalError ''i'')
      | Some n \<Rightarrow>
          if n = 0 then raise ZeroDivisionError
          else emit (LossReport (float_divide (arithmetic ops) (avg_gen_loss l) n)
                                (float_divide (arithmetic ops) (avg_disc_loss l) n)))"

text \<open>
  \<^verbatim>\<open>
  def train_GAN(cfg, train_loader, model, discriminator, optimizer_discriminator,
                optimizer_generator, epoch, final_output_dir, tb_log_dir):
      tbar = tqdm(train_loader)
      print("Epoch ",str(epoch),":")
      model.train()
      discriminator.train()
      avg_disc_loss = 0
      avg_gen_loss = 0
      for ...: ... loop body ...
      print(f"loss gen: {avg_gen_loss / i}, loss disc: {avg_disc_loss / i}")
  \<close>
\<close>

definition train_GAN :: "'w torch_ops \<Rightarrow> batch list \<Rightarrow> (unit, 'w) prog" where
  "train_GAN ops train_loader =
     bnd (emit (Printed ''Epoch'')) (\<lambda>_.
     bnd (emit ModelTrain) (\<lambda>_.
     bnd (emit DiscriminatorTrain) (\<lambda>_.
     bnd (batches_loop ops 0 train_loader
            \<lparr>avg_disc_loss = Finite 0, avg_gen_loss = Finite 0, loop_i = None\<rparr>) (\<lambda>l.
     report ops l))))"

definition updates :: "event list \<Rightarrow> event list" where
  \<comment> \<open>the optimizer updates among the events, in order\<close>
  "updates evs = filter (\<lambda>ev. ev = DiscStep \<or> ev = GenStep) evs"

section \<open>Example inputs\<close>

text \<open>
  A small run: a generator with one parameter \<open>w\<close>, a discriminator with one parameter
  \<open>d\<close>, optimizers with the learning rate \<open>1\<close>, a training step that changes nothing
  and a validation that always measures \<open>0.8\<close>; a checkpoint of epoch \<open>n\<close> that holds
  other values for both parameters; and a configuration with milestones \<open>[5, 15]\<close> and
  decay \<open>1/2\<close>.
\<close>

definition example_collaborators :: "unit collaborators" where
  "example_collaborators =
     \<lparr>new_model = [(''w'', \<lparr>shape = [1], vals = [Finite 0]\<rparr>)],
      new_discriminator = [(''d'', \<lparr>shape = [1], vals = [Finite 0]\<rparr>)],
      new_optimizer_generator = \<lparr>group_lr = 1, buffers = ()\<rparr>,
      new_optimizer_discriminator = \<lparr>group_lr = 1, buffers = ()\<rparr>,
      train = (\<lambda>epoch st. st),
      validate = (\<lambda>m. 8 / 10)\<rparr>"

definition example_checkpoint :: "int \<Rightarrow> unit checkpoint" where
  "example_checkpoint n =
     \<lparr>ck_epoch = n,
      ck_model = ''omnipose'',
      ck_state_dict = [(''w'', \<lparr>shape = [1], vals = [Finite 3]\<rparr>)],
      ck_best_state_dict = [(''w'', \<lparr>shape = [1], vals = [Finite 3]\<rparr>)],
      ck_perf = 7 / 10,
      ck_optimizer = \<lparr>group_lr = 1, buffers = ()\<rparr>,
      ck_discriminator_state_dict = [(''d'', \<lparr>shape = [1], vals = [Finite 5]\<rparr>)],
      ck_discriminator_optimizer = \<lparr>group_lr = 1, buffers = ()\<rparr>\<rparr>"

definition example_cfg :: "int \<Rightarrow> int \<Rightarrow> config" where
  "example_cfg b e =
     \<lparr>AUTO_RESUME = True, MODEL_NAME = ''omnipose'', BEGIN_EPOCH = b, END_EPOCH = e,
      LR_STEP = [5, 15], LR_FACTOR = 1 / 2\<rparr>"

text \<open>
  The checkpoint that a run of ten epochs of the example, started from scratch, writes
  last (after epoch \<open>9\<close>): the milestone \<open>5\<close> has halved the generator optimizer's rate.
\<close>

definition saved_checkpoint :: "unit checkpoint" where
  "saved_checkpoint =
     \<lparr>ck_epoch = 10,
      ck_model = ''omnipose'',
      ck_state_dict = [(''w'', \<lparr>shape = [1], vals = [Finite 0]\<rparr>)],
      ck_best_state_dict = [(''w'', \<lparr>shape = [1], vals = [Finite 0]\<rparr>)],
      ck_perf = 8 / 10,
      ck_optimizer = \<lparr>group_lr = 1 / 2, buffers = ()\<rparr>,
      ck_discriminator_state_dict = [(''d'', \<lparr>shape = [1], vals = [Finite 0]\<rparr>)],
      ck_discriminator_optimizer = \<lparr>group_lr = 1, buffers = ()\<rparr>\<rparr>"

definition secondary_zero :: "'o session \<Rightarrow> bool" where
  \<comment> \<open>the secondary best metric and every printed secondary value are \<open>0\<close>\<close>
  "secondary_zero s =
     (best_perf_01 s = 0 \<and> list_all (\<lambda>q. q = 0) (secondary_reports (printed s)))"

section \<open>Properties of the losses\<close>

lemma exact_plus_commute: "exact_plus a b = exact_plus b a"
  by (cases a; cases b) simp_all

lemma foldl_exact_plus:
  "foldl exact_plus (Finite a) (map Finite xs) = Finite (a + sum_list xs)"
  by (induction xs arbitrary: a) (simp_all add: add.assoc)

lemma exact_mean_finite:
  "xs \<noteq> [] \<Longrightarrow> exact_mean (map Finite xs) = Finite (sum_list xs / real (length xs))"
  by (simp add: exact_mean_def foldl_exact_plus)

lemma exact_log_finite:
  "list_all (\<lambda>x. 0 < x) xs \<Longrightarrow> map exact_log (map Finite xs) = map Finite (map ln xs)"
  by (induction xs) simp_all

lemma exact_neg_mean_log:
  assumes "xs \<noteq> []" and "list_all (\<lambda>x. 0 < x) xs"
  shows "exact_neg (exact_mean (map exact_log (map Finite xs)))
         = Finite (- (sum_list (map ln xs) / real (length xs)))"
proof -
  have a: "map exact_log (map Finite xs) = map Finite (map ln xs)"
    using assms(2) by (rule exact_log_finite)
  have b: "exact_mean (map Finite (map ln xs))
      = Finite (sum_list (map ln xs) / real (length (map ln xs)))"
    using assms(1) by (intro exact_mean_finite) simp
  show ?thesis unfolding a b by simp
qed

lemma exact_helper_real:
  assumes "rs \<noteq> []" and "list_all (\<lambda>x. 0 < c + x) rs"
  shows "neg_op exact_arith (mean_op exact_arith
           (map (\<lambda>x. log_op exact_arith (scalar_plus exact_arith (Finite c) x)) (map Finite rs)))
         = Finite (- (sum_list (map (\<lambda>x. ln (c + x)) rs) / real (length rs)))"
proof -
  have pos: "list_all (\<lambda>x. 0 < x) (map (\<lambda>x. c + x) rs)"
    using assms(2) by (simp add: list_all_iff)
  have ne: "map (\<lambda>x. c + x) rs \<noteq> []" using assms(1) by simp
  have eq: "map (\<lambda>x. log_op exact_arith (scalar_plus exact_arith (Finite c) x)) (map Finite rs)
      = map exact_log (map Finite (map (\<lambda>x. c + x) rs))"
    by (induction rs) (simp_all add: exact_arith_def)
  have ops: "neg_op exact_arith = exact_neg" "mean_op exact_arith = exact_mean"
    by (simp_all add: exact_arith_def)
  show ?thesis
    unfolding eq ops exact_neg_mean_log [OF ne pos] by (simp add: comp_def)
qed

lemma exact_helper_fake:
  assumes "fs \<noteq> []" and "list_all (\<lambda>x. 0 < c - x) fs"
  shows "neg_op exact_arith (mean_op exact_arith
           (map (\<lambda>x. log_op exact_arith (scalar_minus exact_arith (Finite c) x)) (map Finite fs)))
         = Finite (- (sum_list (map (\<lambda>x. ln (c - x)) fs) / real (length fs)))"
proof -
  have pos: "list_all (\<lambda>x. 0 < x) (map (\<lambda>x. c - x) fs)"
    using assms(2) by (simp add: list_all_iff)
  have ne: "map (\<lambda>x. c - x) fs \<noteq> []" using assms(1) by simp
  have eq: "map (\<lambda>x. log_op exact_arith (scalar_minus exact_arith (Finite c) x)) (map Finite fs)
      = map exact_log (map Finite (map (\<lambda>x. c - x) fs))"
    by (induction fs) (simp_all add: exact_arith_def exact_minus_def)
  have ops: "neg_op exact_arith = exact_neg" "mean_op exact_arith = exact_mean"
    by (simp_all add: exact_arith_def)
  show ?thesis
    unfolding eq ops exact_neg_mean_log [OF ne pos] by (simp add: comp_def)
qed

lemma get_loss_disc_unfold:
  "get_loss_disc A fakeOutput realOutput =
     plus_op A
       (neg_op A (mean_op A (map (\<lambda>x. log_op A
          (scalar_minus A (float_plus A (py_float A (1 / 100000)) (Finite 1)) x)) (vals fakeOutput))))
       (neg_op A (mean_op A (map (\<lambda>x. log_op A
          (scalar_plus A (py_float A (1 / 100000)) x)) (vals realOutput))))"
  by (simp add: get_loss_disc_def private_get_loss_disc_def default_eps_def mean_def
      torch_log_def add_scalar_def rsub_scalar_def comp_def)

lemma exact_arith_commute: "plus_op exact_arith a b = plus_op exact_arith b a"
  by (simp add: exact_arith_def exact_plus_commute)

text \<open>
  C3.  With the stabiliser \<open>\<epsilon> = 1e-5\<close>, the discriminator loss of a real and a fake
  output is \<open>-mean(log(\<epsilon> + realOutput)) + (-mean(log(\<epsilon> + 1 - fakeOutput)))\<close>, in
  the operations of the arithmetic (whose addition of two values commutes: the code adds
  the fake term first), and it is the sum of two calls of the shared helper, with the
  flag \<open>False\<close> on the fake output and \<open>True\<close> on the real one.  In exact arithmetic, on
  non-empty tensors with positive arguments of the logarithms, the value is
  \<open>- (\<Sum>x\<leftarrow>rs. ln (\<epsilon> + x)) / length rs + - (\<Sum>x\<leftarrow>fs. ln (\<epsilon> + 1 - x)) / length fs\<close>.
\<close>

theorem get_loss_disc_formula:
  assumes "\<And>a b. plus_op A a b = plus_op A b a"
  shows "get_loss_disc A fakeOutput realOutput =
           plus_op A
             (neg_op A (mean_op A (map (\<lambda>x. log_op A
                (scalar_plus A (py_float A (1 / 100000)) x)) (vals realOutput))))
             (neg_op A (mean_op A (map (\<lambda>x. log_op A
                (scalar_minus A (float_plus A (py_float A (1 / 100000)) (Finite 1)) x))
                (vals fakeOutput))))
         \<and> get_loss_disc A fakeOutput realOutput =
             plus_op A (private_get_loss_disc A fakeOutput False (py_float A (1 / 100000)))
                       (private_get_loss_disc A realOutput True (py_float A (1 / 100000)))
         \<and> (rs \<noteq> [] \<and> fs \<noteq> [] \<and> list_all (\<lambda>x. 0 < 1 / 100000 + x) rs
              \<and> list_all (\<lambda>x. 0 < 1 / 100000 + 1 - x) fs \<longrightarrow>
            get_loss_disc exact_arith \<lparr>shape = sf, vals = map Finite fs\<rparr>
                                      \<lparr>shape = sr, vals = map Finite rs\<rparr> =
              Finite (- (sum_list (map (\<lambda>x. ln (1 / 100000 + x)) rs) / real (length rs))
                      + - (sum_list (map (\<lambda>x. ln (1 / 100000 + 1 - x)) fs) / real (length fs))))"
proof (intro conjI impI)
  show "get_loss_disc A fakeOutput realOutput =
           plus_op A
             (neg_op A (mean_op A (map (\<lambda>x. log_op A
                (scalar_plus A (py_float A (1 / 100000)) x)) (vals realOutput))))
             (neg_op A (mean_op A (map (\<lambda>x. log_op A
                (scalar_minus A (float_plus A (py_float A (1 / 100000)) (Finite 1)) x))
                (vals fakeOutput))))"
    unfolding get_loss_disc_unfold by (rule assms)
next
  show "get_loss_disc A fakeOutput realOutput =
             plus_op A (private_get_loss_disc A fakeOutput False (py_float A (1 / 100000)))
                       (private_get_loss_disc A realOutput True (py_float A (1 / 100000)))"
    by (simp add: get_loss_disc_def default_eps_def)
next
  assume a: "rs \<noteq> [] \<and> fs \<noteq> [] \<and> list_all (\<lambda>x. 0 < 1 / 100000 + x) rs
              \<and> list_all (\<lambda>x. 0 < 1 / 100000 + 1 - x) fs"
  have e: "py_float exact_arith (1 / 100000) = Finite (1 / 100000)"
    by (simp add: exact_arith_def)
  have c: "float_plus exact_arith (Finite (1 / 100000)) (Finite 1) = Finite (1 / 100000 + 1)"
    by (simp add: exact_arith_def)
  have r: "neg_op exact_arith (mean_op exact_arith
           (map (\<lambda>x. log_op exact_arith (scalar_plus exact_arith (Finite (1 / 100000)) x))
             (map Finite rs)))
         = Finite (- (sum_list (map (\<lambda>x. ln (1 / 100000 + x)) rs) / real (length rs)))"
    using a by (intro exact_helper_real) simp_all
  have f: "neg_op exact_arith (mean_op exact_arith
           (map (\<lambda>x. log_op exact_arith (scalar_minus exact_arith (Finite (1 / 100000 + 1)) x))
             (map Finite fs)))
         = Finite (- (sum_list (map (\<lambda>x. ln (1 / 100000 + 1 - x)) fs) / real (length fs)))"
    using a by (intro exact_helper_fake) simp_all
  have p: "plus_op exact_arith = exact_plus" by (simp add: exact_arith_def)
  have v: "vals \<lparr>shape = sf, vals = map Finite fs\<rparr> = map Finite fs"
    "vals \<lparr>shape = sr, vals = map Finite rs\<rparr> = map Finite rs"
    by simp_all
  show "get_loss_disc exact_arith \<lparr>shape = sf, vals = map Finite fs\<rparr>
                                      \<lparr>shape = sr, vals = map Finite rs\<rparr> =
              Finite (- (sum_list (map (\<lambda>x. ln (1 / 100000 + x)) rs) / real (length rs))
                      + - (sum_list (map (\<lambda>x. ln (1 / 100000 + 1 - x)) fs) / real (length fs)))"
    unfolding get_loss_disc_unfold v e c r f p by simp
qed

theorem get_loss_disc_formula_witness:
  "get_loss_disc exact_arith \<lparr>shape = [1], vals = [Finite (1 / 2)]\<rparr>
                             \<lparr>shape = [1], vals = [Finite (1 / 4)]\<rparr>
   = Finite (- ln (1 / 100000 + 1 / 4) + - ln (1 / 100000 + 1 - 1 / 2))"
proof -
  note t = get_loss_disc_formula [where A = exact_arith and rs = "[1 / 4]" and fs = "[1 / 2]"
      and sf = "[1]" and sr = "[1]", OF exact_arith_commute]
  from t [THEN conjunct2, THEN conjunct2] show ?thesis by simp
qed

lemma concat_chunks:
  "concat (map (\<lambda>i. take n (drop (i * n) xs)) [0..<d]) = take (d * n) xs"
proof (induction d)
  case 0
  show ?case by simp
next
  case (Suc d)
  have "take (d * n + n) xs = take (d * n) xs @ take n (drop (d * n) xs)"
    by (rule take_add)
  with Suc show ?case by (simp add: add.commute)
qed

lemma expand_same: "length xs = prod_list s \<Longrightarrow> expand s s xs = xs"
proof (induction s arbitrary: xs)
  case Nil
  show ?case by simp
next
  case (Cons d ds)
  let ?n = "prod_list ds"
  have part: "expand ds ds (take ?n (drop (i * ?n) xs)) = take ?n (drop (i * ?n) xs)"
    if "i < d" for i
  proof (rule Cons.IH)
    have "i * ?n + ?n \<le> d * ?n"
      using that by (metis Suc_leI mult_Suc mult_le_mono1 add.commute)
    then show "length (take ?n (drop (i * ?n) xs)) = ?n"
      using Cons.prems by simp
  qed
  have m: "map (\<lambda>i. expand ds ds (take ?n (drop (i * ?n) xs))) [0..<d]
      = map (\<lambda>i. take ?n (drop (i * ?n) xs)) [0..<d]"
    using part by simp
  have "expand (d # ds) (d # ds) xs
      = concat (map (\<lambda>i. expand ds ds (take ?n (drop (i * ?n) xs))) [0..<d])"
    by (simp add: Let_def)
  also have "\<dots> = concat (map (\<lambda>i. take ?n (drop (i * ?n) xs)) [0..<d])"
    by (simp only: m)
  also have "\<dots> = take (d * ?n) xs"
    by (rule concat_chunks)
  finally have "expand (d # ds) (d # ds) xs = take (d * ?n) xs" .
  then show ?case using Cons.prems by simp
qed

lemma broadcast_shape_same: "broadcast_shape s s = s"
  unfolding broadcast_shape_def by (induction s) simp_all

lemma sub_t_same_shape:
  assumes "well_formed a" and "well_formed b" and "shape a = shape b"
  shows "sub_t A a b = Inr \<lparr>shape = shape a, vals = map2 (minus_op A) (vals a) (vals b)\<rparr>"
proof -
  have pad: "pad_shape (length (shape b)) (shape b) = shape b"
    by (simp add: pad_shape_def)
  have ok: "list_all2 (\<lambda>x y. x = y \<or> x = 1 \<or> y = 1) (shape b) (shape b)"
    by (rule list_all2_refl) simp
  have ea: "expand (shape b) (shape b) (vals a) = vals a"
    using assms(1,3) by (intro expand_same) (simp add: well_formed_def)
  have eb: "expand (shape b) (shape b) (vals b) = vals b"
    using assms(2) by (intro expand_same) (simp add: well_formed_def)
  show ?thesis
    using ok by (simp add: sub_t_def assms(3) pad broadcast_shape_same ea eb Let_def)
qed

lemma sub_t_broadcast_example:
  "sub_t A \<lparr>shape = [2, 1], vals = [a0, a1]\<rparr> \<lparr>shape = [1, 2], vals = [b0, b1]\<rparr>
   = Inr \<lparr>shape = [2, 2],
          vals = [minus_op A a0 b0, minus_op A a0 b1, minus_op A a1 b0, minus_op A a1 b1]\<rparr>"
  by (simp add: sub_t_def pad_shape_def broadcast_shape_def Let_def upt_rec numeral_2_eq_2)

lemma sub_t_mismatch_example:
  "sub_t A \<lparr>shape = [2], vals = [a0, a1]\<rparr> \<lparr>shape = [3], vals = [b0, b1, b2]\<rparr>
   = Inl (RuntimeError ''size mismatch'')"
  by (simp add: sub_t_def pad_shape_def Let_def)

lemma get_loss_gen_unfold:
  "get_loss_gen A generatorOutput fakeOutput target =
     (case sub_t A generatorOutput target of
        Inl e \<Rightarrow> Inl e
      | Inr d \<Rightarrow>
          Inr (plus_op A (mean_op A (map (square_op A) (vals d)))
                 (neg_op A (mean_op A (map (\<lambda>x. log_op A
                    (scalar_plus A (py_float A (1 / 100000)) x)) (vals fakeOutput))))))"
  by (simp add: get_loss_gen_def private_get_loss_disc_def default_eps_def mean_def
      torch_log_def add_scalar_def square_def comp_def Let_def split: sum.splits)

lemma exact_mean_squares:
  assumes "length os = length ts" and "os \<noteq> []"
  shows "mean_op exact_arith (map (square_op exact_arith)
           (map2 (minus_op exact_arith) (map Finite os) (map Finite ts)))
         = Finite (sum_list (map2 (\<lambda>x y. (x - y) ^ 2) os ts) / real (length os))"
proof -
  have eq: "map (square_op exact_arith)
           (map2 (minus_op exact_arith) (map Finite os) (map Finite ts))
      = map Finite (map2 (\<lambda>x y. (x - y) ^ 2) os ts)"
    using assms(1)
    by (induction os ts rule: list_induct2) (simp_all add: exact_arith_def exact_minus_def)
  have ne: "map2 (\<lambda>x y. (x - y) ^ 2) os ts \<noteq> []"
    using assms by (cases os; cases ts) simp_all
  have len: "length (map2 (\<lambda>x y. (x - y) ^ 2) os ts) = length os"
    using assms(1) by simp
  have m: "mean_op exact_arith = exact_mean" by (simp add: exact_arith_def)
  show ?thesis
    unfolding eq m exact_mean_finite [OF ne] len by simp
qed

text \<open>
  C4.  The generator loss is \<open>mean((generatorOutput - target)^2) + (-mean(log(\<epsilon> +
  fakeOutput)))\<close> with \<open>\<epsilon> = 1e-5\<close>, in the operations of the arithmetic, the difference
  being the broadcasting one of \<open>sub_t\<close> (its exception propagates); on two tensors of
  one shape the difference is elementwise.  In exact arithmetic, on tensors of one shape
  and a non-empty fake output with positive arguments of the logarithm, the value is
  \<open>(\<Sum>(x, y)\<leftarrow>zip os ts. (x - y)^2) / length os + - (\<Sum>x\<leftarrow>fs. ln (\<epsilon> + x)) / length fs\<close>.
\<close>

theorem get_loss_gen_formula:
  "get_loss_gen A generatorOutput fakeOutput target =
     (case sub_t A generatorOutput target of
        Inl e \<Rightarrow> Inl e
      | Inr d \<Rightarrow>
          Inr (plus_op A (mean_op A (map (square_op A) (vals d)))
                 (neg_op A (mean_op A (map (\<lambda>x. log_op A
                    (scalar_plus A (py_float A (1 / 100000)) x)) (vals fakeOutput))))))
   \<and> (well_formed generatorOutput \<and> well_formed target
        \<and> shape generatorOutput = shape target \<longrightarrow>
      sub_t A generatorOutput target =
        Inr \<lparr>shape = shape generatorOutput,
             vals = map2 (minus_op A) (vals generatorOutput) (vals target)\<rparr>)
   \<and> (length os = prod_list s \<and> length ts = prod_list s \<and> os \<noteq> [] \<and> fs \<noteq> []
        \<and> list_all (\<lambda>x. 0 < 1 / 100000 + x) fs \<longrightarrow>
      get_loss_gen exact_arith \<lparr>shape = s, vals = map Finite os\<rparr>
          \<lparr>shape = sf, vals = map Finite fs\<rparr> \<lparr>shape = s, vals = map Finite ts\<rparr>
        = Inr (Finite (sum_list (map2 (\<lambda>x y. (x - y) ^ 2) os ts) / real (length os)
                       + - (sum_list (map (\<lambda>x. ln (1 / 100000 + x)) fs) / real (length fs)))))"
proof (intro conjI impI)
  show "get_loss_gen A generatorOutput fakeOutput target =
     (case sub_t A generatorOutput target of
        Inl e \<Rightarrow> Inl e
      | Inr d \<Rightarrow>
          Inr (plus_op A (mean_op A (map (square_op A) (vals d)))
                 (neg_op A (mean_op A (map (\<lambda>x. log_op A
                    (scalar_plus A (py_float A (1 / 100000)) x)) (vals fakeOutput))))))"
    by (rule get_loss_gen_unfold)
next
  assume "well_formed generatorOutput \<and> well_formed target
        \<and> shape generatorOutput = shape target"
  then show "sub_t A generatorOutput target =
        Inr \<lparr>shape = shape generatorOutput,
             vals = map2 (minus_op A) (vals generatorOutput) (vals target)\<rparr>"
    by (intro sub_t_same_shape) simp_all
next
  assume a: "length os = prod_list s \<and> length ts = prod_list s \<and> os \<noteq> [] \<and> fs \<noteq> []
        \<and> list_all (\<lambda>x. 0 < 1 / 100000 + x) fs"
  let ?o = "\<lparr>shape = s, vals = map Finite os\<rparr>"
  let ?t = "\<lparr>shape = s, vals = map Finite ts\<rparr>"
  have sub: "sub_t exact_arith ?o ?t =
      Inr \<lparr>shape = shape ?o, vals = map2 (minus_op exact_arith) (vals ?o) (vals ?t)\<rparr>"
    using a by (intro sub_t_same_shape) (simp_all add: well_formed_def)
  have sq: "mean_op exact_arith (map (square_op exact_arith)
           (map2 (minus_op exact_arith) (map Finite os) (map Finite ts)))
         = Finite (sum_list (map2 (\<lambda>x y. (x - y) ^ 2) os ts) / real (length os))"
    using a by (intro exact_mean_squares) simp_all
  have e: "py_float exact_arith (1 / 100000) = Finite (1 / 100000)"
    by (simp add: exact_arith_def)
  have f: "neg_op exact_arith (mean_op exact_arith
           (map (\<lambda>x. log_op exact_arith (scalar_plus exact_arith (Finite (1 / 100000)) x))
             (map Finite fs)))
         = Finite (- (sum_list (map (\<lambda>x. ln (1 / 100000 + x)) fs) / real (length fs)))"
    using a by (intro exact_helper_real) simp_all
  have p: "plus_op exact_arith = exact_plus" by (simp add: exact_arith_def)
  have v: "vals \<lparr>shape = sf, vals = map Finite fs\<rparr> = map Finite fs"
    "vals ?o = map Finite os" "vals ?t = map Finite ts"
    "vals \<lparr>shape = shape ?o,
           vals = map2 (minus_op exact_arith) (map Finite os) (map Finite ts)\<rparr>
       = map2 (minus_op exact_arith) (map Finite os) (map Finite ts)"
    by simp_all
  show "get_loss_gen exact_arith ?o \<lparr>shape = sf, vals = map Finite fs\<rparr> ?t
        = Inr (Finite (sum_list (map2 (\<lambda>x y. (x - y) ^ 2) os ts) / real (length os)
                       + - (sum_list (map (\<lambda>x. ln (1 / 100000 + x)) fs) / real (length fs))))"
    unfolding get_loss_gen_unfold sub sum.case v sq e f p by simp
qed

theorem get_loss_gen_formula_witness:
  "get_loss_gen exact_arith \<lparr>shape = [2], vals = [Finite 3, Finite 1]\<rparr>
       \<lparr>shape = [1], vals = [Finite (1 / 2)]\<rparr> \<lparr>shape = [2], vals = [Finite 1, Finite 1]\<rparr>
   = Inr (Finite (4 / 2 + - ln (1 / 100000 + 1 / 2)))"
proof -
  note t = get_loss_gen_formula [where A = exact_arith and os = "[3, 1]" and s = "[2]"
      and ts = "[1, 1]" and fs = "[1 / 2]" and sf = "[1]"]
  from t [THEN conjunct2, THEN conjunct2] show ?thesis by simp
qed

lemma exact_log_negative: "0 < y \<Longrightarrow> y < 1 \<Longrightarrow> negative (log_op exact_arith (Finite y))"
  by (simp add: exact_arith_def)

lemma exact_plus_negative: "negative a \<Longrightarrow> negative b \<Longrightarrow> negative (exact_plus a b)"
  by (cases a; cases b) simp_all

lemma foldl_exact_plus_negative:
  "negative a \<Longrightarrow> list_all negative xs \<Longrightarrow> negative (foldl exact_plus a xs)"
  by (induction xs arbitrary: a) (simp_all add: exact_plus_negative)

lemma exact_divide_negative: "0 < n \<Longrightarrow> negative a \<Longrightarrow> negative (exact_divide a n)"
  by (cases a) (simp_all add: divide_neg_pos)

lemma exact_mean_negative:
  assumes "xs \<noteq> []" and "list_all negative xs"
  shows "negative (mean_op exact_arith xs)"
proof -
  obtain x ys where xs: "xs = x # ys" using assms(1) by (cases xs) auto
  have x: "negative x" "list_all negative ys" using assms(2) xs by simp_all
  have "exact_plus (Finite 0) x = x" by (cases x) simp_all
  then have "negative (foldl exact_plus (Finite 0) xs)"
    using x by (simp add: xs foldl_exact_plus_negative)
  then show ?thesis
    using assms(1) by (simp add: exact_arith_def exact_mean_def exact_divide_negative)
qed

lemma exact_neg_positive: "negative a \<Longrightarrow> positive (neg_op exact_arith a)"
  by (cases a) (simp_all add: exact_arith_def)

lemma exact_plus_positive:
  "positive a \<Longrightarrow> positive b \<Longrightarrow> positive (plus_op exact_arith a b)"
  by (cases a; cases b) (simp_all add: exact_arith_def)

text \<open>
  C5 (as amended).  In every arithmetic where the logarithm of a value strictly between
  \<open>0\<close> and \<open>1\<close> is negative, the mean of negative values is negative, the negation of a
  negative value is positive and the sum of two positive values is positive: when both
  tensors are non-empty and every stabilised value as the code computes it (\<open>\<epsilon> + x\<close> for
  a real output \<open>x\<close>, \<open>(\<epsilon> + 1) - x\<close> for a fake output \<open>x\<close>) lies strictly between \<open>0\<close> and
  \<open>1\<close>, the discriminator loss is positive.
\<close>

theorem get_loss_disc_positive:
  assumes log_neg: "\<And>y. 0 < y \<Longrightarrow> y < 1 \<Longrightarrow> negative (log_op A (Finite y))"
    and mean_neg: "\<And>xs. xs \<noteq> [] \<Longrightarrow> list_all negative xs \<Longrightarrow> negative (mean_op A xs)"
    and neg_pos: "\<And>a. negative a \<Longrightarrow> positive (neg_op A a)"
    and plus_pos: "\<And>a b. positive a \<Longrightarrow> positive b \<Longrightarrow> positive (plus_op A a b)"
    and real_ne: "vals realOutput \<noteq> []"
    and fake_ne: "vals fakeOutput \<noteq> []"
    and real_in: "list_all (\<lambda>x. between 0 1 (scalar_plus A (default_eps A) x)) (vals realOutput)"
    and fake_in: "list_all (\<lambda>x. between 0 1
          (scalar_minus A (float_plus A (default_eps A) (Finite 1)) x)) (vals fakeOutput)"
  shows "positive (get_loss_disc A fakeOutput realOutput)"
proof -
  have log_between: "negative (log_op A s)" if "between 0 1 s" for s
    using that log_neg by (cases s) simp_all
  have r: "list_all negative
      (map (\<lambda>x. log_op A (scalar_plus A (default_eps A) x)) (vals realOutput))"
    using real_in log_between by (simp add: list_all_iff)
  have f: "list_all negative
      (map (\<lambda>x. log_op A (scalar_minus A (float_plus A (default_eps A) (Finite 1)) x))
        (vals fakeOutput))"
    using fake_in log_between by (simp add: list_all_iff)
  have pr: "positive (private_get_loss_disc A realOutput True (default_eps A))"
    unfolding private_get_loss_disc_def mean_def torch_log_def add_scalar_def
    using real_ne r by (auto intro!: neg_pos mean_neg simp: comp_def)
  have pf: "positive (private_get_loss_disc A fakeOutput False (default_eps A))"
    unfolding private_get_loss_disc_def mean_def torch_log_def rsub_scalar_def
    using fake_ne f by (auto intro!: neg_pos mean_neg simp: comp_def)
  show ?thesis
    unfolding get_loss_disc_def using pf pr by (rule plus_pos)
qed

theorem get_loss_disc_positive_witness:
  "vals \<lparr>shape = [1], vals = [Finite (1 / 2)]\<rparr> \<noteq> []
   \<and> between 0 1 (scalar_plus exact_arith (default_eps exact_arith) (Finite (1 / 2)))
   \<and> between 0 1 (scalar_minus exact_arith
         (float_plus exact_arith (default_eps exact_arith) (Finite 1)) (Finite (1 / 2)))
   \<and> positive (get_loss_disc exact_arith \<lparr>shape = [1], vals = [Finite (1 / 2)]\<rparr>
                                          \<lparr>shape = [1], vals = [Finite (1 / 2)]\<rparr>)"
proof -
  have b: "between 0 1 (scalar_plus exact_arith (default_eps exact_arith) (Finite (1 / 2)))"
    "between 0 1 (scalar_minus exact_arith
         (float_plus exact_arith (default_eps exact_arith) (Finite 1)) (Finite (1 / 2)))"
    by (simp_all add: exact_arith_def default_eps_def exact_minus_def)
  have "positive (get_loss_disc exact_arith \<lparr>shape = [1], vals = [Finite (1 / 2)]\<rparr>
                                          \<lparr>shape = [1], vals = [Finite (1 / 2)]\<rparr>)"
    using b
    by (intro get_loss_disc_positive exact_log_negative exact_mean_negative
        exact_neg_positive exact_plus_positive) simp_all
  with b show ?thesis by simp
qed

text \<open>
  Outputs strictly between \<open>0\<close> and \<open>1\<close> are not enough: the stabiliser pushes the argument
  of the logarithm above \<open>1\<close> for a real output of \<open>0.999999\<close> and a fake output of
  \<open>0.000001\<close>, and the loss is negative.
\<close>

theorem get_loss_disc_positive_counterexample:
  "inside 0 1 \<lparr>shape = [1], vals = [Finite (999999 / 1000000)]\<rparr>
   \<and> inside 0 1 \<lparr>shape = [1], vals = [Finite (1 / 1000000)]\<rparr>
   \<and> negative (get_loss_disc exact_arith \<lparr>shape = [1], vals = [Finite (1 / 1000000)]\<rparr>
                                          \<lparr>shape = [1], vals = [Finite (999999 / 1000000)]\<rparr>)"
proof -
  have "0 < ln (1000009 / 1000000 :: real)" by (rule ln_gt_zero) simp
  then show ?thesis
    by (simp add: inside_def get_loss_disc_def private_get_loss_disc_def default_eps_def
        add_scalar_def rsub_scalar_def torch_log_def mean_def exact_arith_def exact_mean_def
        exact_minus_def)
qed

section \<open>Properties of the partial loader\<close>

lemma compatible_Cons:
  "compatible ((k, v) # rest) saved x =
     (if x = k then (case map_of saved k of None \<Rightarrow> False | Some t \<Rightarrow> shape v = shape t)
      else compatible rest saved x)"
  by (simp add: compatible_def split: option.splits)

lemma compatible_in_keys:
  assumes "compatible ps saved x"
  shows "x \<in> fst ` set ps"
proof -
  from assms obtain v where "map_of ps x = Some v"
    by (auto simp: compatible_def split: option.splits)
  then have "(x, v) \<in> set ps" by (rule map_of_SomeD)
  then show ?thesis by force
qed

lemma select_loop_lookup:
  "distinct (map fst ps) \<Longrightarrow>
   map_of (fst (select_loop ps saved (new, sk))) x =
     (if compatible ps saved x then map_of saved x else map_of new x)"
proof (induction ps arbitrary: new sk)
  case Nil
  then show ?case by (simp add: compatible_def split: option.splits)
next
  case (Cons p ps)
  obtain k v where p: "p = (k, v)" by (cases p)
  have d: "distinct (map fst ps)" and k: "k \<notin> fst ` set ps"
    using Cons.prems p by auto
  have nk: "\<not> compatible ps saved k"
    using k compatible_in_keys by blast
  show ?case
  proof (cases "map_of saved k")
    case None
    then show ?thesis
      using Cons.IH [OF d, of new "sk @ [k]"] nk
      by (simp add: p compatible_Cons)
  next
    case (Some t)
    show ?thesis
    proof (cases "shape v = shape t")
      case True
      then show ?thesis
        using Cons.IH [OF d, of "AList.update k t new" sk] nk Some
        by (simp add: p compatible_Cons update_conv')
    next
      case False
      then show ?thesis
        using Cons.IH [OF d, of new "sk @ [k]"] nk Some
        by (simp add: p compatible_Cons)
    qed
  qed
qed

lemma select_loop_skipped:
  "distinct (map fst ps) \<Longrightarrow>
   set (snd (select_loop ps saved (new, sk))) =
     set sk \<union> {k \<in> fst ` set ps. \<not> compatible ps saved k}"
proof (induction ps arbitrary: new sk)
  case Nil
  then show ?case by simp
next
  case (Cons p ps)
  obtain k v where p: "p = (k, v)" by (cases p)
  have d: "distinct (map fst ps)" and k: "k \<notin> fst ` set ps"
    using Cons.prems p by auto
  have rest: "{x \<in> fst ` set ((k, v) # ps). \<not> compatible ((k, v) # ps) saved x} =
      (if compatible ((k, v) # ps) saved k then {} else {k})
      \<union> {x \<in> fst ` set ps. \<not> compatible ps saved x}"
    using k by (auto simp: compatible_Cons)
  show ?case
  proof (cases "map_of saved k")
    case None
    then show ?thesis
      using Cons.IH [OF d, of new "sk @ [k]"]
      unfolding p rest by (simp add: compatible_Cons)
  next
    case (Some t)
    show ?thesis
    proof (cases "shape v = shape t")
      case True
      then show ?thesis
        using Cons.IH [OF d, of "AList.update k t new" sk] Some
        unfolding p rest by (simp add: compatible_Cons)
    next
      case False
      then show ?thesis
        using Cons.IH [OF d, of new "sk @ [k]"] Some
        unfolding p rest by (simp add: compatible_Cons)
    qed
  qed
qed

lemma load_state_dict_ok:
  "list_all (\<lambda>(k, v). case map_of sd k of None \<Rightarrow> True | Some t \<Rightarrow> shape t = shape v) ps \<Longrightarrow>
   load_state_dict ps sd =
     Inr (map (\<lambda>(k, v). (k, case map_of sd k of None \<Rightarrow> v | Some t \<Rightarrow> t)) ps)"
proof (induction ps)
  case Nil
  show ?case by simp
next
  case (Cons p ps)
  obtain k v where p: "p = (k, v)" by (cases p)
  from Cons.prems have tl: "load_state_dict ps sd =
     Inr (map (\<lambda>(k, v). (k, case map_of sd k of None \<Rightarrow> v | Some t \<Rightarrow> t)) ps)"
    by (simp add: Cons.IH)
  from Cons.prems have hd: "case map_of sd k of None \<Rightarrow> True | Some t \<Rightarrow> shape t = shape v"
    by (simp add: p)
  show ?case
  proof (cases "map_of sd k")
    case None
    then show ?thesis by (simp add: p tl)
  next
    case (Some t)
    with hd have "shape t = shape v" by simp
    with Some show ?thesis by (simp add: p tl)
  qed
qed

lemma map_of_map_entries:
  "map_of (map (\<lambda>(k, v). (k, f k v)) ps) x = map_option (f x) (map_of ps x)"
proof (induction ps)
  case Nil
  show ?case by simp
next
  case (Cons p ps)
  obtain k v where p: "p = (k, v)" by (cases p)
  show ?case using Cons.IH by (simp add: p)
qed

text \<open>
  C6.  The generator's partial load (selection loop, then \<open>load_state_dict\<close> on the same
  module) raises nothing and keeps the module's keys.  For every key of the live module:
  when the key is in the saved dictionary with a tensor of the same shape, the module
  afterwards holds the saved tensor and the key is not printed as skipped; otherwise the
  module keeps its live tensor and the key is printed as skipped.
\<close>

theorem partial_load_correct:
  assumes "distinct (map fst live)"
  shows "\<exists>live' skipped. partial_load live live saved = Inr (live', skipped)
           \<and> map fst live' = map fst live
           \<and> (\<forall>k \<in> set (map fst live).
                 if compatible live saved k
                 then map_of live' k = map_of saved k \<and> k \<notin> set skipped
                 else map_of live' k = map_of live k \<and> k \<in> set skipped)"
proof -
  obtain new skipped where sel: "select_loop live saved ([], []) = (new, skipped)"
    by (cases "select_loop live saved ([], [])")
  have new: "map_of new x = (if compatible live saved x then map_of saved x else None)" for x
    using select_loop_lookup [OF assms, of saved "[]" "[]" x] sel by simp
  have sk: "set skipped = {k \<in> fst ` set live. \<not> compatible live saved k}"
    using select_loop_skipped [OF assms, of saved "[]" "[]"] sel by simp
  have entry: "case map_of new k of None \<Rightarrow> True | Some t \<Rightarrow> shape t = shape v"
    if "(k, v) \<in> set live" for k v
  proof -
    have v: "map_of live k = Some v"
      using that assms by simp
    show ?thesis
    proof (cases "compatible live saved k")
      case True
      then show ?thesis
        using v by (simp add: new compatible_def split: option.splits)
    next
      case False
      then show ?thesis by (simp add: new)
    qed
  qed
  have ok: "list_all (\<lambda>(k, v). case map_of new k of None \<Rightarrow> True | Some t \<Rightarrow> shape t = shape v) live"
    unfolding list_all_iff using entry by blast
  let ?live' = "map (\<lambda>(k, v). (k, case map_of new k of None \<Rightarrow> v | Some t \<Rightarrow> t)) live"
  have load: "partial_load live live saved = Inr (?live', skipped)"
    by (simp add: partial_load_def sel load_state_dict_ok [OF ok])
  have keys: "map fst ?live' = map fst live"
    by (rule nth_equalityI) (simp_all add: case_prod_unfold)
  have look: "map_of ?live' x =
      map_option (\<lambda>v. case map_of new x of None \<Rightarrow> v | Some t \<Rightarrow> t) (map_of live x)" for x
    by (rule map_of_map_entries)
  have each: "if compatible live saved k
          then map_of ?live' k = map_of saved k \<and> k \<notin> set skipped
          else map_of ?live' k = map_of live k \<and> k \<in> set skipped"
    if k: "k \<in> set (map fst live)" for k
  proof -
    from k obtain v where v: "map_of live k = Some v"
      by (metis map_of_eq_None_iff not_Some_eq set_map)
    show ?thesis
    proof (cases "compatible live saved k")
      case True
      then obtain t where t: "map_of saved k = Some t"
        by (auto simp: compatible_def split: option.splits)
      have "map_of new k = Some t"
        using True t by (simp add: new)
      then have "map_of ?live' k = Some t"
        unfolding look using v by simp
      with True t show ?thesis
        by (simp add: sk)
    next
      case False
      then have "map_of new k = None"
        by (simp add: new)
      then have "map_of ?live' k = Some v"
        unfolding look using v by simp
      with False v k show ?thesis
        by (simp add: sk)
    qed
  qed
  from load keys each show ?thesis by blast
qed

theorem partial_load_correct_witness:
  "distinct (map fst [(''w'', \<lparr>shape = [4, 4], vals = replicate 16 (Finite 0)\<rparr>),
                      (''b'', \<lparr>shape = [2], vals = [Finite 0, Finite 0]\<rparr>)])
   \<and> partial_load
        [(''w'', \<lparr>shape = [4, 4], vals = replicate 16 (Finite 0)\<rparr>), (''b'', \<lparr>shape = [2], vals = [Finite 0, Finite 0]\<rparr>)]
        [(''w'', \<lparr>shape = [4, 4], vals = replicate 16 (Finite 0)\<rparr>), (''b'', \<lparr>shape = [2], vals = [Finite 0, Finite 0]\<rparr>)]
        [(''w'', \<lparr>shape = [3, 3], vals = replicate 9 (Finite 1)\<rparr>), (''b'', \<lparr>shape = [2], vals = [Finite 5, Finite 7]\<rparr>),
         (''extra'', \<lparr>shape = [1], vals = [Finite 9]\<rparr>)]
      = Inr ([(''w'', \<lparr>shape = [4, 4], vals = replicate 16 (Finite 0)\<rparr>), (''b'', \<lparr>shape = [2], vals = [Finite 5, Finite 7]\<rparr>)],
             [''w''])"
proof -
  have d: "distinct (map fst [(''w'', \<lparr>shape = [4, 4], vals = replicate 16 (Finite 0)\<rparr>),
                      (''b'', \<lparr>shape = [2], vals = [Finite 0, Finite 0]\<rparr>)])"
    by simp
  show ?thesis
    using partial_load_correct [OF d]
    by (simp add: partial_load_def)
qed

section \<open>Properties of the resume block\<close>

lemma example_resume:
  "resume (example_checkpoint n) (initial example_collaborators cfg) =
     Inr ((initial example_collaborators cfg)
           \<lparr>model := [(''w'', \<lparr>shape = [1], vals = [Finite 3]\<rparr>)],
            best_perf := 7 / 10, last_epoch := n, begin_epoch := n\<rparr>)"
  by (simp add: resume_def example_checkpoint_def initial_def example_collaborators_def partial_load_def Let_def)

lemma resume_bookkeeping:
  assumes "resume ck s = Inr s'"
  shows "begin_epoch s' = ck_epoch ck" and "last_epoch s' = ck_epoch ck"
    and "train_calls s' = train_calls s" and "best_perf s' = ck_perf ck"
  using assms
  by (auto simp: resume_def Let_def split: sum.splits prod.splits)

text \<open>
  C2.  The claim asks that the discriminator takes the compatible saved values.  The
  resume block never changes the discriminator: the dictionary selected for it is loaded
  into the generator.
\<close>

theorem resume_leaves_discriminator:
  "resume ck s = Inr s' \<Longrightarrow> discriminator s' = discriminator s"
  by (auto simp: resume_def Let_def split: sum.splits prod.splits)

theorem resume_leaves_discriminator_witness:
  "\<exists>s'. resume (example_checkpoint 10) (initial example_collaborators (example_cfg 0 12)) = Inr s'
        \<and> discriminator s' = [(''d'', \<lparr>shape = [1], vals = [Finite 0]\<rparr>)]
        \<and> map_of (ck_discriminator_state_dict (example_checkpoint 10)) ''d''
            = Some \<lparr>shape = [1], vals = [Finite 5]\<rparr>"
proof -
  let ?s' = "(initial example_collaborators (example_cfg 0 12))
           \<lparr>model := [(''w'', \<lparr>shape = [1], vals = [Finite 3]\<rparr>)],
            best_perf := 7 / 10, last_epoch := 10, begin_epoch := 10\<rparr>"
  have r: "resume (example_checkpoint 10) (initial example_collaborators (example_cfg 0 12)) = Inr ?s'"
    by (rule example_resume)
  have "discriminator ?s' = discriminator (initial example_collaborators (example_cfg 0 12))"
    using r by (rule resume_leaves_discriminator)
  then have d: "discriminator ?s' = [(''d'', \<lparr>shape = [1], vals = [Finite 0]\<rparr>)]"
    by (simp add: initial_def example_collaborators_def)
  have "map_of (ck_discriminator_state_dict (example_checkpoint 10)) ''d''
            = Some \<lparr>shape = [1], vals = [Finite 5]\<rparr>"
    by (simp add: example_checkpoint_def)
  with r d show ?thesis by blast
qed

text \<open>
  What the second load does to the generator instead: a discriminator key that the
  generator also has is written into the generator when the shapes agree, and aborts the
  resume when they differ.
\<close>

lemma resume_overwrites_generator:
  "map_sum id model
     (resume ((example_checkpoint n)
                \<lparr>ck_discriminator_state_dict := [(''w'', \<lparr>shape = [1], vals = [Finite 5]\<rparr>)]\<rparr>)
             ((initial example_collaborators cfg)
                \<lparr>discriminator := [(''w'', \<lparr>shape = [1], vals = [Finite 0]\<rparr>)]\<rparr>))
   = Inr [(''w'', \<lparr>shape = [1], vals = [Finite 5]\<rparr>)]"
  by (simp add: resume_def example_checkpoint_def initial_def example_collaborators_def
      partial_load_def Let_def)

lemma resume_raises:
  "resume ((example_checkpoint n)
             \<lparr>ck_discriminator_state_dict := [(''w'', \<lparr>shape = [2], vals = [Finite 5, Finite 5]\<rparr>)]\<rparr>)
          ((initial example_collaborators cfg)
             \<lparr>discriminator := [(''w'', \<lparr>shape = [2], vals = [Finite 0, Finite 0]\<rparr>)]\<rparr>)
   = Inl (RuntimeError ''size mismatch'')"
  by (simp add: resume_def example_checkpoint_def initial_def example_collaborators_def
      partial_load_def Let_def)

section \<open>The learning rate of a resumed run\<close>

lemma upto_examples:
  "[0..9::int] = [0,1,2,3,4,5,6,7,8,9]"
  "[0..11::int] = [0,1,2,3,4,5,6,7,8,9,10,11]"
  "[10..11::int] = [10, 11]"
  "[0..1::int] = [0, 1]"
  "[0..- 2::int] = []"
  by (simp_all add: upto.simps)

lemma best_model_block_frame:
  "lr_scheduler (best_model_block cfg epoch perf s) = lr_scheduler s"
  "train_calls (best_model_block cfg epoch perf s) = train_calls s"
  "optimizer_generator (best_model_block cfg epoch perf s) = optimizer_generator s"
  by (simp_all add: best_model_block_def Let_def)

lemma step_view:
  "lr_scheduler (step cfg s) = lr_scheduler s + 1"
  "group_lr (optimizer_generator (step cfg s)) =
     get_lr cfg (lr_scheduler s + 1) (group_lr (optimizer_generator s))"
  "train_calls (step cfg s) = train_calls s"
  by (simp_all add: step_def Let_def)

lemma fold_step_view:
  "(lr_scheduler (fold (\<lambda>i. step cfg) xs s),
    group_lr (optimizer_generator (fold (\<lambda>i. step cfg) xs s)),
    train_calls (fold (\<lambda>i. step cfg) xs s))
   = fold (\<lambda>i (n, lr, calls). (n + 1, get_lr cfg (n + 1) lr, calls)) xs
       (lr_scheduler s, group_lr (optimizer_generator s), train_calls s)"
  by (induction xs arbitrary: s) (simp_all add: step_view)

lemma example_epoch_body_view:
  "lr_scheduler (epoch_body example_collaborators cfg epoch s) = lr_scheduler s + 1"
  "group_lr (optimizer_generator (epoch_body example_collaborators cfg epoch s)) =
     get_lr cfg (lr_scheduler s + 1) (group_lr (optimizer_generator s))"
  "train_calls (epoch_body example_collaborators cfg epoch s) =
     train_calls s @ [(epoch, get_lr cfg (lr_scheduler s + 1) (group_lr (optimizer_generator s)))]"
  by (simp_all add: epoch_body_def Let_def best_model_block_frame step_view
      example_collaborators_def)

lemma fold_example_epoch_body_view:
  "(lr_scheduler (fold (epoch_body example_collaborators cfg) es s),
    group_lr (optimizer_generator (fold (epoch_body example_collaborators cfg) es s)),
    train_calls (fold (epoch_body example_collaborators cfg) es s))
   = fold (\<lambda>e (n, lr, calls).
        (n + 1, get_lr cfg (n + 1) lr, calls @ [(e, get_lr cfg (n + 1) lr)])) es
       (lr_scheduler s, group_lr (optimizer_generator s), train_calls s)"
  by (induction es arbitrary: s) (simp_all add: example_epoch_body_view)

lemma fold_step_begin_epoch:
  "begin_epoch (fold (\<lambda>i. step cfg) xs s) = begin_epoch s"
  by (induction xs arbitrary: s) (simp_all add: step_def Let_def)

lemma example_epochs_train_calls:
  "train_calls (epochs example_collaborators cfg s) =
     snd (snd (fold (\<lambda>e (n, lr, calls).
        (n + 1, get_lr cfg (n + 1) lr, calls @ [(e, get_lr cfg (n + 1) lr)]))
       (range2 (begin_epoch s) (END_EPOCH cfg))
       (fold (\<lambda>i (n, lr, calls). (n + 1, get_lr cfg (n + 1) lr, calls)) (range1 (last_epoch s))
          (0, get_lr cfg 0 (group_lr (optimizer_generator s)), train_calls s))))"
proof -
  let ?c = "MultiStepLR cfg s"
  let ?r = "fold (\<lambda>i. step cfg) (range1 (last_epoch s)) ?c"
  let ?e = "fold (epoch_body example_collaborators cfg) (range2 (begin_epoch s) (END_EPOCH cfg)) ?r"
  have c: "(lr_scheduler ?c, group_lr (optimizer_generator ?c), train_calls ?c)
      = (0, get_lr cfg 0 (group_lr (optimizer_generator s)), train_calls s)"
    by (simp add: MultiStepLR_def step_view)
  have b: "begin_epoch ?r = begin_epoch s"
    by (simp add: fold_step_begin_epoch MultiStepLR_def step_def Let_def)
  have "train_calls (epochs example_collaborators cfg s) = train_calls ?e"
    by (simp add: epochs_def Let_def b)
  also have "\<dots> = snd (snd (lr_scheduler ?e, group_lr (optimizer_generator ?e), train_calls ?e))"
    by simp
  also have "(lr_scheduler ?e, group_lr (optimizer_generator ?e), train_calls ?e)
      = fold (\<lambda>e (n, lr, calls).
          (n + 1, get_lr cfg (n + 1) lr, calls @ [(e, get_lr cfg (n + 1) lr)]))
        (range2 (begin_epoch s) (END_EPOCH cfg))
        (lr_scheduler ?r, group_lr (optimizer_generator ?r), train_calls ?r)"
    by (rule fold_example_epoch_body_view)
  also have "(lr_scheduler ?r, group_lr (optimizer_generator ?r), train_calls ?r)
      = fold (\<lambda>i (n, lr, calls). (n + 1, get_lr cfg (n + 1) lr, calls)) (range1 (last_epoch s))
          (lr_scheduler ?c, group_lr (optimizer_generator ?c), train_calls ?c)"
    by (rule fold_step_view)
  finally show ?thesis unfolding c .
qed

lemma example_resume_saved:
  "resume saved_checkpoint (initial example_collaborators cfg) =
     Inr ((initial example_collaborators cfg)
           \<lparr>optimizer_generator := \<lparr>group_lr = 1 / 2, buffers = ()\<rparr>,
            best_perf := 8 / 10, last_epoch := 10, begin_epoch := 10\<rparr>)"
  by (simp add: resume_def saved_checkpoint_def initial_def example_collaborators_def
      partial_load_def Let_def)

lemma resumed_train_calls:
  "map_sum id train_calls
     (main example_collaborators (example_cfg 0 12) (Some saved_checkpoint))
   = Inr [(10, 1 / 4), (11, 1 / 4)]"
proof -
  have a: "AUTO_RESUME (example_cfg 0 12)" by (simp add: example_cfg_def)
  have m: "main example_collaborators (example_cfg 0 12) (Some saved_checkpoint) =
      Inr (epochs example_collaborators (example_cfg 0 12)
        ((initial example_collaborators (example_cfg 0 12))
           \<lparr>optimizer_generator := \<lparr>group_lr = 1 / 2, buffers = ()\<rparr>,
            best_perf := 8 / 10, last_epoch := 10, begin_epoch := 10\<rparr>))"
    by (simp add: main_def example_resume_saved a)
  show ?thesis
    unfolding m
    by (simp add: example_epochs_train_calls range1_def range2_def upto_examples get_lr_def
        example_cfg_def initial_def)
qed

lemma fresh_train_calls:
  "map_sum id (\<lambda>s. drop 10 (train_calls s))
     (main example_collaborators (example_cfg 0 12) None)
   = Inr [(10, 1 / 2), (11, 1 / 2)]"
proof -
  have m: "main example_collaborators (example_cfg 0 12) None =
      Inr (epochs example_collaborators (example_cfg 0 12)
        (initial example_collaborators (example_cfg 0 12)))"
    by (simp add: main_def)
  show ?thesis
    unfolding m map_sum.simps example_epochs_train_calls
    by (simp add: range1_def range2_def upto_examples get_lr_def
        example_cfg_def initial_def example_collaborators_def)
qed

lemma step_frame:
  "model (step cfg s) = model s"
  "discriminator (step cfg s) = discriminator s"
  "optimizer_discriminator (step cfg s) = optimizer_discriminator s"
  "buffers (optimizer_generator (step cfg s)) = buffers (optimizer_generator s)"
  "best_perf (step cfg s) = best_perf s"
  "checkpoints (step cfg s) = checkpoints s"
  by (simp_all add: step_def Let_def)

lemma example_epoch_body_frame:
  "model (epoch_body example_collaborators cfg e s) = model s"
  "discriminator (epoch_body example_collaborators cfg e s) = discriminator s"
  "optimizer_discriminator (epoch_body example_collaborators cfg e s) = optimizer_discriminator s"
  "buffers (optimizer_generator (epoch_body example_collaborators cfg e s)) =
     buffers (optimizer_generator s)"
  by (simp_all add: epoch_body_def best_model_block_def Let_def step_frame
      example_collaborators_def)

lemma example_epoch_body_best_perf:
  "best_perf s \<le> 8 / 10 \<Longrightarrow> best_perf (epoch_body example_collaborators cfg e s) \<le> 8 / 10"
  by (simp add: epoch_body_def best_model_block_def Let_def step_frame
      example_collaborators_def)

lemma fold_example_epoch_body_frame:
  "model (fold (epoch_body example_collaborators cfg) es s) = model s"
  "discriminator (fold (epoch_body example_collaborators cfg) es s) = discriminator s"
  "optimizer_discriminator (fold (epoch_body example_collaborators cfg) es s) =
     optimizer_discriminator s"
  "buffers (optimizer_generator (fold (epoch_body example_collaborators cfg) es s)) =
     buffers (optimizer_generator s)"
  by (induction es arbitrary: s) (simp_all add: example_epoch_body_frame)

lemma fold_example_epoch_body_best_perf:
  "best_perf s \<le> 8 / 10 \<Longrightarrow>
   best_perf (fold (epoch_body example_collaborators cfg) es s) \<le> 8 / 10"
proof (induction es arbitrary: s)
  case Nil
  then show ?case by simp
next
  case (Cons e es)
  have "best_perf (epoch_body example_collaborators cfg e s) \<le> 8 / 10"
    using Cons.prems by (rule example_epoch_body_best_perf)
  then have "best_perf (fold (epoch_body example_collaborators cfg) es
      (epoch_body example_collaborators cfg e s)) \<le> 8 / 10"
    by (rule Cons.IH)
  then show ?case by simp
qed

lemma example_epoch_body_last:
  assumes "best_perf s \<le> 8 / 10"
  shows "last (checkpoints (epoch_body example_collaborators cfg e s)) =
     \<lparr>ck_epoch = e + 1,
      ck_model = MODEL_NAME cfg,
      ck_state_dict = model s,
      ck_best_state_dict = model s,
      ck_perf = 8 / 10,
      ck_optimizer =
        \<lparr>group_lr = get_lr cfg (lr_scheduler s + 1) (group_lr (optimizer_generator s)),
         buffers = buffers (optimizer_generator s)\<rparr>,
      ck_discriminator_state_dict = discriminator s,
      ck_discriminator_optimizer = optimizer_discriminator s\<rparr>"
  using assms
  by (simp add: epoch_body_def best_model_block_def Let_def step_def
      example_collaborators_def)

lemma fresh_ten_epochs:
  "map_sum id (\<lambda>s. last (checkpoints s))
     (main example_collaborators (example_cfg 0 10) None) = Inr saved_checkpoint"
proof -
  let ?cfg = "example_cfg 0 10"
  let ?i = "initial example_collaborators ?cfg"
  let ?c = "MultiStepLR ?cfg ?i"
  let ?f = "fold (epoch_body example_collaborators ?cfg) [0, 1, 2, 3, 4, 5, 6, 7, 8] ?c"
  have m: "main example_collaborators ?cfg None = Inr (epochs example_collaborators ?cfg ?i)"
    by (simp add: main_def)
  have r1: "fold (\<lambda>i. step ?cfg) (range1 (last_epoch ?i)) ?c = ?c"
    by (simp add: range1_def initial_def upto_examples)
  have r2: "range2 (begin_epoch ?c) (END_EPOCH ?cfg) = [0, 1, 2, 3, 4, 5, 6, 7, 8] @ [9]"
    by (simp add: range2_def initial_def example_cfg_def MultiStepLR_def
        step_def Let_def upto_examples)
  have "checkpoints (epochs example_collaborators ?cfg ?i) =
      checkpoints (fold (epoch_body example_collaborators ?cfg)
        ([0, 1, 2, 3, 4, 5, 6, 7, 8] @ [9]) ?c)"
    unfolding epochs_def Let_def r1 r2 by simp
  also have "\<dots> = checkpoints (epoch_body example_collaborators ?cfg 9 ?f)"
    unfolding fold_append by simp
  finally have e: "checkpoints (epochs example_collaborators ?cfg ?i) =
      checkpoints (epoch_body example_collaborators ?cfg 9 ?f)" .
  have c: "(lr_scheduler ?c, group_lr (optimizer_generator ?c), train_calls ?c) = (0, 1, [])"
    "model ?c = [(''w'', \<lparr>shape = [1], vals = [Finite 0]\<rparr>)]"
    "discriminator ?c = [(''d'', \<lparr>shape = [1], vals = [Finite 0]\<rparr>)]"
    "optimizer_discriminator ?c = \<lparr>group_lr = 1, buffers = ()\<rparr>"
    "best_perf ?c \<le> 8 / 10"
    by (simp_all add: MultiStepLR_def step_def Let_def initial_def example_cfg_def
        example_collaborators_def get_lr_def)
  have b: "best_perf ?f \<le> 8 / 10"
    by (rule fold_example_epoch_body_best_perf) (rule c(5))
  have v: "(lr_scheduler ?f, group_lr (optimizer_generator ?f), train_calls ?f) =
      fold (\<lambda>e (n, lr, calls).
          (n + 1, get_lr ?cfg (n + 1) lr, calls @ [(e, get_lr ?cfg (n + 1) lr)]))
        [0, 1, 2, 3, 4, 5, 6, 7, 8] (0, 1, [])"
    unfolding fold_example_epoch_body_view c(1) ..
  have "lr_scheduler ?f = 9 \<and> group_lr (optimizer_generator ?f) = 1 / 2"
    using v by (simp add: get_lr_def example_cfg_def)
  then have l: "get_lr ?cfg (lr_scheduler ?f + 1) (group_lr (optimizer_generator ?f)) = 1 / 2"
    by (simp add: get_lr_def example_cfg_def)
  have n: "MODEL_NAME ?cfg = ''omnipose''"
    by (simp add: example_cfg_def)
  show ?thesis
    unfolding m map_sum.simps e example_epoch_body_last [OF b] l n
      fold_example_epoch_body_frame c(2) c(3) c(4)
    by (simp add: saved_checkpoint_def)
qed

text \<open>
  C7.  The replay of the scheduler does not bring a resumed run to the learning rate of
  the uninterrupted one.  A run of ten epochs from scratch (milestones \<open>[5, 15]\<close>, factor
  \<open>1 / 2\<close>, first rate \<open>1\<close>) writes \<open>saved_checkpoint\<close> after epoch \<open>9\<close>, the optimizer's rate
  \<open>1 / 2\<close> in it.  The run resumed from this checkpoint restores the rate \<open>1 / 2\<close> with the
  optimizer's state, replays ten steps of the scheduler from a counter of \<open>0\<close>, the
  milestone \<open>5\<close> among them, and trains epochs \<open>10\<close> and \<open>11\<close> at \<open>1 / 4\<close>; the
  uninterrupted run of twelve epochs trains them at \<open>1 / 2\<close>.
\<close>

theorem resume_decays_twice:
  "map_sum id (\<lambda>s. last (checkpoints s))
     (main example_collaborators (example_cfg 0 10) None) = Inr saved_checkpoint
   \<and> map_sum id train_calls
       (main example_collaborators (example_cfg 0 12) (Some saved_checkpoint))
     = Inr [(10, 1 / 4), (11, 1 / 4)]
   \<and> map_sum id (\<lambda>s. drop 10 (train_calls s))
       (main example_collaborators (example_cfg 0 12) None)
     = Inr [(10, 1 / 2), (11, 1 / 2)]"
  using fresh_ten_epochs resumed_train_calls fresh_train_calls by (intro conjI)

section \<open>Properties of the best-model decision\<close>

text \<open>
  C8.  For a validation metric \<open>perf\<close> and the incumbent \<open>best_perf\<close>, the new incumbent
  and the improvement flag are those of the specification's \<open>consider\<close>: improvement
  exactly when \<open>perf \<ge> best_perf\<close>.  On improvement one checkpoint record is written
  (for epoch \<open>epoch + 1\<close>, with the metric); otherwise none is.
\<close>

theorem best_model_decision:
  "(best_perf (best_model_block cfg epoch perf s), best_model (best_model_block cfg epoch perf s))
     = consider_spec perf (best_perf s)
   \<and> checkpoints (best_model_block cfg epoch perf s) =
       (if perf \<ge> best_perf s
        then checkpoints s @
               [\<lparr>ck_epoch = epoch + 1, ck_model = MODEL_NAME cfg, ck_state_dict = model s,
                 ck_best_state_dict = model s, ck_perf = perf,
                 ck_optimizer = optimizer_generator s,
                 ck_discriminator_state_dict = discriminator s,
                 ck_discriminator_optimizer = optimizer_discriminator s\<rparr>]
        else checkpoints s)"
  by (simp add: best_model_block_def consider_spec_def Let_def)

theorem best_model_decision_witness:
  "consider_spec (80 / 100) (80 / 100) = (80 / 100, True)
   \<and> consider_spec (79 / 100) (80 / 100) = (80 / 100, False)
   \<and> best_model (best_model_block (example_cfg 0 2) 0 (80 / 100) ((initial example_collaborators (example_cfg 0 2))\<lparr>best_perf := 80 / 100\<rparr>))
   \<and> length (checkpoints (best_model_block (example_cfg 0 2) 0 (80 / 100)
         ((initial example_collaborators (example_cfg 0 2))\<lparr>best_perf := 80 / 100\<rparr>))) = 1
   \<and> \<not> best_model (best_model_block (example_cfg 0 2) 0 (79 / 100) ((initial example_collaborators (example_cfg 0 2))\<lparr>best_perf := 80 / 100\<rparr>))
   \<and> checkpoints (best_model_block (example_cfg 0 2) 0 (79 / 100)
         ((initial example_collaborators (example_cfg 0 2))\<lparr>best_perf := 80 / 100\<rparr>)) = []"
  using best_model_decision [of "example_cfg 0 2" 0 "80 / 100" "(initial example_collaborators (example_cfg 0 2))\<lparr>best_perf := 80 / 100\<rparr>"]
    best_model_decision [of "example_cfg 0 2" 0 "79 / 100" "(initial example_collaborators (example_cfg 0 2))\<lparr>best_perf := 80 / 100\<rparr>"]
  by (simp add: consider_spec_def initial_def)

section \<open>The secondary metric\<close>

lemma secondary_reports_append:
  "secondary_reports (xs @ ys) = secondary_reports xs @ secondary_reports ys"
  by (induction xs rule: secondary_reports.induct) simp_all

lemma secondary_reports_skipped: "secondary_reports (map SkippedLoading ks) = []"
  by (induction ks) simp_all

lemma best_model_block_zero:
  "secondary_zero s \<Longrightarrow> secondary_zero (best_model_block cfg epoch perf s)"
  by (simp add: secondary_zero_def best_model_block_def Let_def secondary_reports_append)

lemma step_zero: "secondary_zero s \<Longrightarrow> secondary_zero (step cfg s)"
  by (simp add: secondary_zero_def step_def Let_def)

lemma fold_step_zero:
  "secondary_zero s \<Longrightarrow> secondary_zero (fold (\<lambda>i. step cfg) xs s)"
  by (induction xs arbitrary: s) (simp_all add: step_zero)

lemma epoch_body_zero: "secondary_zero s \<Longrightarrow> secondary_zero (epoch_body ext cfg epoch s)"
proof -
  assume z: "secondary_zero s"
  let ?s1 = "step cfg s"
  let ?t = "train ext epoch (model ?s1, optimizer_generator ?s1)"
  let ?s2 = "?s1\<lparr>model := fst ?t, optimizer_generator := snd ?t,
                  train_calls := train_calls ?s1 @ [(epoch, group_lr (optimizer_generator ?s1))]\<rparr>"
  have "secondary_zero ?s1" using z by (rule step_zero)
  then have "secondary_zero ?s2" by (simp add: secondary_zero_def)
  then have "secondary_zero (best_model_block cfg epoch (validate ext (model ?s2)) ?s2)"
    by (rule best_model_block_zero)
  then show ?thesis by (simp add: epoch_body_def Let_def)
qed

lemma fold_epoch_body_zero:
  "secondary_zero s \<Longrightarrow> secondary_zero (fold (epoch_body ext cfg) es s)"
  by (induction es arbitrary: s) (simp_all add: epoch_body_zero)

lemma epochs_zero: "secondary_zero s \<Longrightarrow> secondary_zero (epochs ext cfg s)"
proof -
  assume z: "secondary_zero s"
  let ?s1 = "fold (\<lambda>i. step cfg) (range1 (last_epoch s)) (MultiStepLR cfg s)"
  have "secondary_zero (s\<lparr>lr_scheduler := - 1\<rparr>)" using z by (simp add: secondary_zero_def)
  then have "secondary_zero (MultiStepLR cfg s)" unfolding MultiStepLR_def by (rule step_zero)
  then have "secondary_zero ?s1" by (rule fold_step_zero)
  then have "secondary_zero (fold (epoch_body ext cfg) (range2 (begin_epoch ?s1) (END_EPOCH cfg)) ?s1)"
    by (rule fold_epoch_body_zero)
  then show ?thesis by (simp add: epochs_def Let_def secondary_zero_def)
qed

lemma initial_zero: "secondary_zero (initial ext cfg)"
  by (simp add: secondary_zero_def initial_def)

lemma resume_zero:
  assumes "secondary_zero s" and "resume ck s = Inr s'"
  shows "secondary_zero s'"
  using assms
  by (auto simp: resume_def Let_def secondary_zero_def secondary_reports_append
      secondary_reports_skipped split: sum.splits prod.splits)

text \<open>
  C10.  Whenever \<open>main\<close> returns, whatever the configuration, the checkpoint file and
  the validation results, the secondary best metric is \<open>0\<close> and every "Best so far"
  line printed during the run reports \<open>0\<close> for PCKh@0.1.
\<close>

theorem secondary_metric_constant:
  assumes "main ext cfg checkpoint_file = Inr s"
  shows "best_perf_01 s = 0 \<and> list_all (\<lambda>q. q = 0) (secondary_reports (printed s))"
proof -
  have "secondary_zero s"
  proof (cases checkpoint_file)
    case None
    with assms have "s = epochs ext cfg (initial ext cfg)" by (simp add: main_def)
    then show ?thesis by (simp add: epochs_zero initial_zero)
  next
    case (Some ck)
    show ?thesis
    proof (cases "AUTO_RESUME cfg")
      case False
      with Some assms have "s = epochs ext cfg (initial ext cfg)" by (simp add: main_def)
      then show ?thesis by (simp add: epochs_zero initial_zero)
    next
      case True
      with Some assms obtain s0 where r: "resume ck (initial ext cfg) = Inr s0"
        and s: "s = epochs ext cfg s0"
        by (auto simp: main_def split: sum.splits)
      from initial_zero r have "secondary_zero s0" by (rule resume_zero)
      with s show ?thesis by (simp add: epochs_zero)
    qed
  qed
  then show ?thesis by (simp add: secondary_zero_def)
qed

theorem secondary_metric_constant_witness:
  "\<exists>s. main example_collaborators (example_cfg 0 2) None = Inr s
       \<and> best_perf s = 8 / 10 \<and> best_perf_01 s = 0
       \<and> secondary_reports (printed s) = [0, 0]"
proof -
  let ?s = "epochs example_collaborators (example_cfg 0 2) (initial example_collaborators (example_cfg 0 2))"
  have m: "main example_collaborators (example_cfg 0 2) None = Inr ?s" by (simp add: main_def)
  have "best_perf ?s = 8 / 10 \<and> secondary_reports (printed ?s) = [0, 0]"
    by (simp add: epochs_def Let_def MultiStepLR_def range1_def range2_def upto_examples
      epoch_body_def best_model_block_def step_def initial_def example_cfg_def
      example_collaborators_def)
  with secondary_metric_constant [OF m] m show ?thesis by simp
qed

section \<open>Properties of \<open>train_GAN\<close>\<close>

lemma loop_body_raises:
  "\<exists>e s'. loop_body ops n b l s = (Inl e, s') \<and> updates (events s') = updates (events s)"
proof -
  obtain inp target target_weight where b: "b = (inp, target, target_weight)"
    by (cases b)
  let ?s1 = "s\<lparr>world := disc_zero_grad ops (world s), events := events s @ [DiscZeroGrad]\<rparr>"
  obtain r1 w1 where m1: "model_call ops inp (disc_zero_grad ops (world s)) = (r1, w1)"
    by (cases "model_call ops inp (disc_zero_grad ops (world s))")
  let ?s2 = "?s1\<lparr>world := w1, events := events ?s1 @ [ModelForward]\<rparr>"
  let ?s3 = "?s2\<lparr>events := events ?s2 @ [Printed ''input shape:'']\<rparr>"
  have u3: "updates (events ?s3) = updates (events s)"
    by (simp add: updates_def)
  have u2: "updates (events ?s2) = updates (events s)"
    by (simp add: updates_def)
  show ?thesis
  proof (cases r1)
    case (Inl e)
    then have "loop_body ops n b l s = (Inl e, ?s2)"
      by (simp add: loop_body_def b bnd_def effect_def forward_def m1)
    with u2 show ?thesis by blast
  next
    case outputs: (Inr outputs)
    show ?thesis
    proof (cases "cat_axis1 ops [target, inp]")
      case (Inl e)
      then have "loop_body ops n b l s = (Inl e, ?s3)"
        by (simp add: loop_body_def b bnd_def effect_def forward_def m1 outputs emit_def lift_def)
      with u3 show ?thesis by blast
    next
      case real_in: (Inr real_in)
      obtain r2 w2 where m2: "discriminator_call ops real_in w1 = (r2, w2)"
        by (cases "discriminator_call ops real_in w1")
      let ?s4 = "?s3\<lparr>world := w2, events := events ?s3 @ [DiscriminatorForward]\<rparr>"
      have u4: "updates (events ?s4) = updates (events s)"
        by (simp add: updates_def)
      show ?thesis
      proof (cases r2)
        case (Inl e)
        then have "loop_body ops n b l s = (Inl e, ?s4)"
          using m2
          by (simp add: loop_body_def b bnd_def effect_def forward_def m1 outputs emit_def
              lift_def real_in)
        with u4 show ?thesis by blast
      next
        case (Inr disc_real)
        then have "loop_body ops n b l s = (Inl (NameError ''input_resized''), ?s4)"
          using m2
          by (simp add: loop_body_def b bnd_def effect_def forward_def m1 outputs emit_def
              lift_def real_in input_resized_def raise_def)
        with u4 show ?thesis by blast
      qed
    qed
  qed
qed

text \<open>
  C1.  The claim asks for one discriminator update followed by one generator update per
  batch.  On a loader with at least one batch \<open>train_GAN\<close> raises during the first batch,
  and no optimizer update is among the events it leaves behind.
\<close>

theorem train_GAN_no_update:
  "\<exists>e. fst (train_GAN ops (b # bs) s) = Inl e
       \<and> updates (events (snd (train_GAN ops (b # bs) s))) = updates (events s)"
proof -
  let ?l = "\<lparr>avg_disc_loss = Finite 0, avg_gen_loss = Finite 0, loop_i = None\<rparr>"
  let ?s = "s\<lparr>events := events s @ [Printed ''Epoch''] @ [ModelTrain] @ [DiscriminatorTrain]\<rparr>"
  obtain e s' where body: "loop_body ops 0 b ?l ?s = (Inl e, s')"
    and u: "updates (events s') = updates (events ?s)"
    using loop_body_raises [of ops 0 b ?l ?s] by blast
  have "train_GAN ops (b # bs) s = (Inl e, s')"
    using body by (simp add: train_GAN_def bnd_def emit_def)
  moreover have "updates (events ?s) = updates (events s)"
    by (simp add: updates_def)
  ultimately show ?thesis using u by simp
qed

text \<open>
  C9.  The claim asks for a guarded report on an epoch without batches.  On the empty
  loader \<open>train_GAN\<close> raises \<open>UnboundLocalError\<close> for the loop variable \<open>i\<close>.
\<close>

theorem train_GAN_empty_loader:
  "fst (train_GAN ops [] s) = Inl (UnboundLocalError ''i'')"
  by (simp add: train_GAN_def bnd_def emit_def ret_def report_def raise_def)

text \<open>
  The report divides by the last index, not by the number of batches: after a single
  batch (\<open>i = 0\<close>) it raises \<open>ZeroDivisionError\<close>, after \<open>n + 1\<close> batches it divides the
  totals by \<open>n\<close>.
\<close>

lemma report_single_batch:
  "fst (report ops (l\<lparr>loop_i := Some 0\<rparr>) s) = Inl ZeroDivisionError"
  by (simp add: report_def raise_def)

lemma report_divides_by_last_index:
  "0 < n \<Longrightarrow> report ops (l\<lparr>loop_i := Some n\<rparr>) s =
     (Inr (), s\<lparr>events := events s @
        [LossReport (float_divide (arithmetic ops) (avg_gen_loss l) n)
                    (float_divide (arithmetic ops) (avg_disc_loss l) n)]\<rparr>)"
  by (simp add: report_def emit_def)

end
